theory Spec2Isabelle
  imports Main
begin

section \<open>The Student table of \<^verbatim>\<open>lib/sqlalchemy_sandbox.py\<close>\<close>

text \<open>
  The script declares one mapped class, \<^verbatim>\<open>Student\<close>, opens an in-memory SQLite database
  through one SQLAlchemy session and runs a fixed sequence of inserts, queries, updates and
  deletes, printing as it goes. The script itself is embedded statement by statement
  (\<open>script\<close> below). The calls it makes into SQLAlchemy and SQLite are embedded by what the
  two libraries do for exactly these calls with their default arguments; each such
  definition says which call it stands for.
\<close>

subsection \<open>Values\<close>

text \<open>\<^verbatim>\<open>datetime.datetime\<close>; \<^verbatim>\<open>datetime(year=.., month=.., day=..)\<close> leaves the time at zero.\<close>

record datetime =
  year :: int
  month :: int
  day :: int
  hour :: int
  minute :: int
  second :: int
  microsecond :: int

definition date :: "int \<Rightarrow> int \<Rightarrow> int \<Rightarrow> datetime" where
  "date y m d = \<lparr>year = y, month = m, day = d, hour = 0, minute = 0, second = 0, microsecond = 0\<rparr>"

text \<open>
  The columns of \<^verbatim>\<open>students\<close> other than the primary key (lines 19 to 23). None of them is
  declared \<^verbatim>\<open>nullable=False\<close>, so each may hold NULL, which is \<open>None\<close> here as in Python.
\<close>

record columns =
  name :: "string option"
  email :: "string option"
  grade :: "int option"
  birthday :: "datetime option"
  enrolled_date :: "datetime option"

text \<open>
  A \<^verbatim>\<open>Student\<close> instance: the same attributes and \<^verbatim>\<open>id\<close> (line 18), which is \<open>None\<close> until
  something assigns it.
\<close>

record student = columns +
  id_col :: "int option"

text \<open>
  A stored row: the primary key, which SQLite never leaves NULL for an
  \<^verbatim>\<open>INTEGER PRIMARY KEY\<close>, and the other columns. A table is the list of its rows in the order
  of SQLite's table b-tree, which is keyed by the primary key. The \<^verbatim>\<open>Index\<close> of line 16 is
  built in the class body and given to no table, so \<^verbatim>\<open>create_all\<close> creates no index and a
  SELECT without ORDER BY walks that b-tree.
\<close>

type_synonym row = "int \<times> columns"
type_synonym table = "row list"

definition table_ok :: "table \<Rightarrow> bool" where
  "table_ok t = sorted_wrt (<) (map fst t)"

text \<open>Loading a row into an instance, and the column values an instance carries.\<close>

definition load :: "row \<Rightarrow> student" where
  "load r = \<lparr>name = name (snd r), email = email (snd r), grade = grade (snd r),
              birthday = birthday (snd r), enrolled_date = enrolled_date (snd r),
              id_col = Some (fst r)\<rparr>"

definition values_of :: "student \<Rightarrow> columns" where
  "values_of s = \<lparr>name = name s, email = email s, grade = grade s,
                   birthday = birthday s, enrolled_date = enrolled_date s\<rparr>"

text \<open>Lines 40 to 60: the two instances the script builds. Neither call passes \<^verbatim>\<open>id\<close> or
  \<^verbatim>\<open>enrolled_date\<close>.\<close>

definition albert_einstein0 :: student where
  "albert_einstein0 = \<lparr>name = Some ''Albert Einstein'',
     email = Some ''albert.einstein@zurich.edu'', grade = Some 6,
     birthday = Some (date 1879 3 14), enrolled_date = None, id_col = None\<rparr>"

definition alan_turing0 :: student where
  "alan_turing0 = \<lparr>name = Some ''Alan Turing'',
     email = Some ''alan.turing@sherborne.edu'', grade = Some 11,
     birthday = Some (date 1912 6 23), enrolled_date = None, id_col = None\<rparr>"

subsection \<open>What can be raised\<close>

text \<open>
  The script catches nothing, so the first exception ends it. These are the exceptions the
  calls of the script can raise: Python's own (\<open>TypeError\<close> for \<^verbatim>\<open>None + 1\<close>,
  \<open>AttributeError\<close> for an attribute of \<^verbatim>\<open>None\<close>, \<open>OverflowError\<close> when the
  \<^verbatim>\<open>sqlite3\<close> driver binds an integer outside 64 bits), SQLite's (\<open>IntegrityError\<close> for a
  duplicate primary key, \<open>SqliteFull\<close> when no primary key can be generated) and
  SQLAlchemy's for \<^verbatim>\<open>session.delete\<close> (\<open>UnmappedInstanceError\<close> for \<^verbatim>\<open>None\<close>,
  \<open>InvalidRequestError\<close> for an instance that is not persisted).
\<close>

datatype error =
    TypeError
  | AttributeError
  | OverflowError
  | IntegrityError
  | SqliteFull
  | UnmappedInstanceError
  | InvalidRequestError

definition int64 :: "int \<Rightarrow> bool" where
  "int64 n = (- (2 ^ 63) \<le> n \<and> n < 2 ^ 63)"

definition bindable :: "int option \<Rightarrow> bool" where
  "bindable v = (case v of None \<Rightarrow> True | Some n \<Rightarrow> int64 n)"

subsection \<open>The column default of line 23\<close>

text \<open>
  \<^verbatim>\<open>Column(..., default=X)\<close> takes either a value, used as it is for every INSERT that
  leaves the column out, or a callable, called at each such INSERT. Line 23 passes
  \<^verbatim>\<open>datetime.now()\<close>: the call is made while the class body runs and the column receives
  its result. \<open>class_time\<close> is that result.
\<close>

datatype col_default = NoDefault | Scalar datetime | Callable

definition enrolled_date_default :: "datetime \<Rightarrow> col_default" where
  "enrolled_date_default class_time = Scalar class_time"

definition apply_default :: "col_default \<Rightarrow> datetime \<Rightarrow> datetime option \<Rightarrow> datetime option" where
  "apply_default d now v =
     (case v of
        Some x \<Rightarrow> Some x
      | None \<Rightarrow> (case d of NoDefault \<Rightarrow> None | Scalar x \<Rightarrow> Some x | Callable \<Rightarrow> Some now))"

subsection \<open>Statements on the table\<close>

text \<open>
  \<^verbatim>\<open>INSERT INTO students (...) VALUES (...)\<close> for one instance, executed at time \<open>now\<close>.
  An attribute that is \<open>None\<close> is left out of the statement, so the column default
  applies to it. Without an \<^verbatim>\<open>id\<close> SQLite gives the row one more than the largest key in
  the table, and 1 in an empty table. At the largest 64-bit key SQLite looks for a free key
  at random and reports that the database is full when it finds none; only that last
  outcome is kept here. With an \<^verbatim>\<open>id\<close> the row goes to its place in key order, and a key
  already present is refused.
\<close>

definition next_rowid :: "table \<Rightarrow> error + int" where
  "next_rowid t =
     (if t = [] then Inr 1
      else if fst (last t) < 2 ^ 63 - 1 then Inr (fst (last t) + 1)
      else Inl SqliteFull)"

fun place_row :: "row \<Rightarrow> table \<Rightarrow> table" where
  "place_row r [] = [r]"
| "place_row r (x # xs) = (if fst r < fst x then r # x # xs else x # place_row r xs)"

definition insert_row :: "col_default \<Rightarrow> datetime \<Rightarrow> student \<Rightarrow> table \<Rightarrow> error + table" where
  "insert_row d now s t =
     (let c = (values_of s)\<lparr>enrolled_date := apply_default d now (enrolled_date s)\<rparr> in
      if \<not> bindable (grade s) \<or> \<not> bindable (id_col s) then Inl OverflowError
      else case id_col s of
        None \<Rightarrow> (case next_rowid t of Inl e \<Rightarrow> Inl e | Inr i \<Rightarrow> Inr (t @ [(i, c)]))
      | Some i \<Rightarrow>
          if i \<in> set (map fst t) then Inl IntegrityError else Inr (place_row (i, c) t))"

text \<open>
  \<^verbatim>\<open>UPDATE students SET grade=? WHERE students.id = ?\<close>: what a flush emits for an
  instance whose \<^verbatim>\<open>grade\<close> was assigned.
\<close>

definition update_row :: "student \<Rightarrow> table \<Rightarrow> error + table" where
  "update_row s t =
     (if \<not> bindable (grade s) then Inl OverflowError
      else Inr (map (\<lambda>r. if Some (fst r) = id_col s
                           then (fst r, (snd r)\<lparr>grade := grade s\<rparr>) else r) t))"

text \<open>\<^verbatim>\<open>DELETE FROM students WHERE students.id = ?\<close>: what a flush emits for an instance
  marked deleted.\<close>

definition delete_row :: "student \<Rightarrow> table \<Rightarrow> table" where
  "delete_row s t = filter (\<lambda>r. Some (fst r) \<noteq> id_col s) t"

text \<open>
  \<^verbatim>\<open>UPDATE students SET grade=(students.grade + 1)\<close>, line 136. NULL + 1 is NULL. SQLite
  adds 64-bit integers and answers with a floating-point number when the sum leaves that
  range; rows here hold integers, so what is proved about this statement below is stated
  for grades under the largest 64-bit integer.
\<close>

definition sql_plus1 :: "int option \<Rightarrow> int option" where
  "sql_plus1 g = (case g of None \<Rightarrow> None | Some n \<Rightarrow> Some (n + 1))"

definition update_expr :: "table \<Rightarrow> table" where
  "update_expr t = map (\<lambda>r. (fst r, (snd r)\<lparr>grade := sql_plus1 (grade (snd r))\<rparr>)) t"

text \<open>\<^verbatim>\<open>DELETE FROM students WHERE <criterion>\<close>, line 157: the rows for which the
  criterion is true go.\<close>

definition delete_expr :: "(row \<Rightarrow> bool) \<Rightarrow> table \<Rightarrow> table" where
  "delete_expr p t = filter (\<lambda>r. \<not> p r) t"

subsection \<open>Criteria and orderings\<close>

text \<open>
  A WHERE clause keeps the rows for which the criterion is true; a comparison with NULL is
  not. \<^verbatim>\<open>=\<close> on text compares the characters exactly. \<^verbatim>\<open>LIKE\<close>, as SQLite has it
  unless \<^verbatim>\<open>PRAGMA case_sensitive_like\<close> is set (the script does not set it): \<^verbatim>\<open>%\<close> stands
  for any run of characters, \<^verbatim>\<open>_\<close> for any one, and the ASCII letters match without regard
  to case.
\<close>

definition name_eq :: "string \<Rightarrow> row \<Rightarrow> bool" where
  "name_eq v r = (name (snd r) = Some v)"

definition grade_eq :: "int \<Rightarrow> row \<Rightarrow> bool" where
  "grade_eq v r = (grade (snd r) = Some v)"

definition ascii_lower :: "char \<Rightarrow> char" where
  "ascii_lower c =
     (case map_of (zip ''ABCDEFGHIJKLMNOPQRSTUVWXYZ'' ''abcdefghijklmnopqrstuvwxyz'') c of
        None \<Rightarrow> c | Some l \<Rightarrow> l)"

fun like :: "string \<Rightarrow> string \<Rightarrow> bool" where
  "like [] [] = True"
| "like [] (c # cs) = False"
| "like (p # ps) [] = (p = CHR ''%'' \<and> like ps [])"
| "like (p # ps) (c # cs) =
     (if p = CHR ''%'' then like ps (c # cs) \<or> like (p # ps) cs
      else (p = CHR ''_'' \<or> ascii_lower p = ascii_lower c) \<and> like ps cs)"

definition name_like :: "string \<Rightarrow> row \<Rightarrow> bool" where
  "name_like pat r = (case name (snd r) of None \<Rightarrow> False | Some n \<Rightarrow> like pat n)"

text \<open>
  ORDER BY: NULL sorts below every value, text compares character by character. The sort
  is an insertion sort that keeps rows with equal keys in table order; \<open>ahead a b\<close> says
  that \<open>a\<close> must come ahead of \<open>b\<close>.
\<close>

fun sql_lt :: "('a \<Rightarrow> 'a \<Rightarrow> bool) \<Rightarrow> 'a option \<Rightarrow> 'a option \<Rightarrow> bool" where
  "sql_lt lt None None = False"
| "sql_lt lt None (Some b) = True"
| "sql_lt lt (Some a) None = False"
| "sql_lt lt (Some a) (Some b) = lt a b"

fun str_lt :: "string \<Rightarrow> string \<Rightarrow> bool" where
  "str_lt [] [] = False"
| "str_lt [] (b # bs) = True"
| "str_lt (a # as) [] = False"
| "str_lt (a # as) (b # bs) =
     ((of_char a :: nat) < of_char b \<or> (a = b \<and> str_lt as bs))"

fun insort_by :: "('a \<Rightarrow> 'a \<Rightarrow> bool) \<Rightarrow> 'a \<Rightarrow> 'a list \<Rightarrow> 'a list" where
  "insort_by ahead x [] = [x]"
| "insort_by ahead x (y # ys) =
     (if ahead y x then y # insort_by ahead x ys else x # y # ys)"

definition order_by :: "('a \<Rightarrow> 'a \<Rightarrow> bool) \<Rightarrow> 'a list \<Rightarrow> 'a list" where
  "order_by ahead xs = foldr (insort_by ahead) xs []"

definition by_name :: "row \<Rightarrow> row \<Rightarrow> bool" where
  "by_name a b = sql_lt str_lt (name (snd a)) (name (snd b))"

definition by_grade_desc :: "row \<Rightarrow> row \<Rightarrow> bool" where
  "by_grade_desc a b = sql_lt (<) (grade (snd b)) (grade (snd a))"

text \<open>\<^verbatim>\<open>.limit(n)\<close>, and \<^verbatim>\<open>.first()\<close>, which asks for one row and answers \<^verbatim>\<open>None\<close> when
  there is none.\<close>

definition limit :: "nat \<Rightarrow> 'a list \<Rightarrow> 'a list" where
  "limit n xs = take n xs"

definition first :: "'a list \<Rightarrow> 'a option" where
  "first xs = (case limit 1 xs of [] \<Rightarrow> None | x # _ \<Rightarrow> Some x)"

subsection \<open>Printing\<close>

text \<open>
  An f-string formats an integer in decimal, a string as it is and \<^verbatim>\<open>None\<close> as
  \<^verbatim>\<open>None\<close>. \<open>Student_repr\<close> is \<^verbatim>\<open>Student.__repr__\<close>, lines 25 to 28.
\<close>

function digits :: "nat \<Rightarrow> string" where
  "digits n =
     (if n < 10 then [''0123456789'' ! n]
      else digits (n div 10) @ [''0123456789'' ! (n mod 10)])"
  by pat_completeness auto
termination
  by (relation "measure (\<lambda>n. n)") auto

declare digits.simps [simp del]

definition str_int :: "int \<Rightarrow> string" where
  "str_int i = (if i < 0 then CHR ''-'' # digits (nat (- i)) else digits (nat i))"

definition fmt_int :: "int option \<Rightarrow> string" where
  "fmt_int v = (case v of None \<Rightarrow> ''None'' | Some i \<Rightarrow> str_int i)"

definition fmt_str :: "string option \<Rightarrow> string" where
  "fmt_str v = (case v of None \<Rightarrow> ''None'' | Some x \<Rightarrow> x)"

definition Student_repr :: "student \<Rightarrow> string" where
  "Student_repr self =
     (''Student '' @ fmt_int (id_col self) @ '': '')
     @ (fmt_str (name self) @ '', '')
     @ (''Grade '' @ fmt_int (grade self))"

text \<open>
  What \<^verbatim>\<open>print\<close> is given: standard output is the list of these values, one for each call.
  \<open>PObj\<close> is an instance, shown by its \<^verbatim>\<open>__repr__\<close>; \<open>PTuple\<close> is a result row.
\<close>

datatype pyval =
    PNone
  | PInt int
  | PStr string
  | PDatetime datetime
  | PObj string
  | PTuple "pyval list"
  | PList "pyval list"

definition py_int :: "int option \<Rightarrow> pyval" where
  "py_int v = (case v of None \<Rightarrow> PNone | Some i \<Rightarrow> PInt i)"

definition py_str :: "string option \<Rightarrow> pyval" where
  "py_str v = (case v of None \<Rightarrow> PNone | Some x \<Rightarrow> PStr x)"

definition py_datetime :: "datetime option \<Rightarrow> pyval" where
  "py_datetime v = (case v of None \<Rightarrow> PNone | Some x \<Rightarrow> PDatetime x)"

subsection \<open>The session and the variables of the script\<close>

text \<open>
  A variable that holds a \<^verbatim>\<open>Student\<close> or \<^verbatim>\<open>None\<close>. A \<open>Transient\<close> instance was built by
  the constructor and the session does not know it; a \<open>Persistent\<close> one was loaded by a
  query of the session, and is kept with the attributes it was loaded with.
\<close>

datatype pyobj = PyNone | Transient student | Persistent student

text \<open>
  \<open>committed\<close> is the table as of the last COMMIT, \<open>working\<close> the table as the open
  transaction sees it. \<open>dirty\<close> are the loaded instances whose \<^verbatim>\<open>grade\<close> was assigned
  and \<open>deleted\<close> the ones given to \<^verbatim>\<open>session.delete\<close>, both waiting for the next flush.
\<close>

record state =
  committed :: table
  working :: table
  dirty :: "student list"
  deleted :: "student list"
  albert_einstein :: pyobj
  alan_turing :: pyobj
  stdout :: "pyval list"

definition init :: state where
  "init = \<lparr>committed = [], working = [], dirty = [], deleted = [],
            albert_einstein = Transient albert_einstein0,
            alan_turing = Transient alan_turing0, stdout = []\<rparr>"

definition print :: "pyval \<Rightarrow> state \<Rightarrow> state" where
  "print v s = s\<lparr>stdout := stdout s @ [v]\<rparr>"

text \<open>
  A flush writes the pending changes into the open transaction: an UPDATE for each dirty
  instance that is not also marked deleted, then a DELETE for each deleted one. Every query
  of the session flushes first (autoflush is on by default), and so does \<^verbatim>\<open>commit\<close>.
\<close>

fun update_rows :: "student list \<Rightarrow> table \<Rightarrow> error + table" where
  "update_rows [] t = Inr t"
| "update_rows (x # xs) t =
     (case update_row x t of Inl e \<Rightarrow> Inl e | Inr t' \<Rightarrow> update_rows xs t')"

definition flush :: "state \<Rightarrow> error + state" where
  "flush s =
     (case update_rows [x \<leftarrow> dirty s. id_col x \<notin> set (map id_col (deleted s))] (working s) of
        Inl e \<Rightarrow> Inl e
      | Inr t \<Rightarrow> Inr (s\<lparr>working := foldr delete_row (deleted s) t, dirty := [], deleted := []\<rparr>))"

definition commit :: "state \<Rightarrow> error + state" where
  "commit s = (case flush s of Inl e \<Rightarrow> Inl e | Inr s' \<Rightarrow> Inr (s'\<lparr>committed := working s'\<rparr>))"

definition query :: "(state \<Rightarrow> error + state) \<Rightarrow> state \<Rightarrow> error + state" where
  "query f s = (case flush s of Inl e \<Rightarrow> Inl e | Inr s' \<Rightarrow> f s')"

text \<open>
  \<^verbatim>\<open>session.bulk_save_objects(objects)\<close>, line 63, executed at time \<open>now\<close>. The call does
  not pass \<^verbatim>\<open>return_defaults\<close>, so the keys SQLite generates are not fetched: an instance
  without an identity is inserted and stays as it was, outside the session. \<^verbatim>\<open>None\<close> has
  no instance state to read, which shows while the instances are grouped, ahead of the
  INSERT. A loaded instance with no change pending gives no statement.
\<close>

fun bulk_insert :: "col_default \<Rightarrow> datetime \<Rightarrow> pyobj list \<Rightarrow> table \<Rightarrow> error + table" where
  "bulk_insert d now [] t = Inr t"
| "bulk_insert d now (Transient x # xs) t =
     (case insert_row d now x t of
        Inl e \<Rightarrow> Inl e
      | Inr t' \<Rightarrow> bulk_insert d now xs t')"
| "bulk_insert d now (x # xs) t = bulk_insert d now xs t"

definition bulk_save_objects :: "col_default \<Rightarrow> datetime \<Rightarrow> pyobj list \<Rightarrow> table \<Rightarrow> error + table" where
  "bulk_save_objects d now objects t =
     (if PyNone \<in> set objects then Inl AttributeError else bulk_insert d now objects t)"

text \<open>Lines 128 and 129: \<^verbatim>\<open>student.grade += 1\<close> for each loaded instance; \<^verbatim>\<open>None + 1\<close>
  raises.\<close>

fun increment_grades :: "student list \<Rightarrow> error + student list" where
  "increment_grades [] = Inr []"
| "increment_grades (x # xs) =
     (case grade x of
        None \<Rightarrow> Inl TypeError
      | Some g \<Rightarrow>
          (case increment_grades xs of
             Inl e \<Rightarrow> Inl e
           | Inr ys \<Rightarrow> Inr (x\<lparr>grade := Some (g + 1)\<rparr> # ys)))"

text \<open>\<^verbatim>\<open>session.delete(instance)\<close>, line 147.\<close>

definition session_delete :: "pyobj \<Rightarrow> state \<Rightarrow> error + state" where
  "session_delete x s =
     (case x of
        PyNone \<Rightarrow> Inl UnmappedInstanceError
      | Transient y \<Rightarrow> Inl InvalidRequestError
      | Persistent y \<Rightarrow> Inr (s\<lparr>deleted := deleted s @ [y]\<rparr>))"

subsection \<open>The script\<close>

text \<open>
  The statements of lines 63 to 159, one constructor for each kind; a query and the
  \<^verbatim>\<open>print\<close> of its result are one statement.
\<close>

datatype stmt =
    BulkSaveObjects       \<comment> \<open>line 63\<close>
  | Commit                \<comment> \<open>lines 64, 131, 148\<close>
  | PrintIdAlbert         \<comment> \<open>line 66\<close>
  | PrintIdAlan           \<comment> \<open>line 67\<close>
  | PrintStudents         \<comment> \<open>lines 73 and 74, and 76 and 77\<close>
  | PrintNames            \<comment> \<open>lines 79 and 80\<close>
  | PrintNamesByName      \<comment> \<open>lines 84 to 86\<close>
  | PrintByGradeDesc      \<comment> \<open>lines 90 to 92\<close>
  | PrintOldestLimit      \<comment> \<open>lines 99 to 101\<close>
  | PrintOldestFirst      \<comment> \<open>lines 103 to 105\<close>
  | PrintCount            \<comment> \<open>lines 111 and 112\<close>
  | PrintAlanGrade11      \<comment> \<open>lines 119 to 122\<close>
  | IncrementGrades       \<comment> \<open>lines 128 and 129\<close>
  | PrintNameGrade        \<comment> \<open>lines 132 and 137\<close>
  | UpdateExpr            \<comment> \<open>line 136\<close>
  | FirstAlbert           \<comment> \<open>lines 143 and 145, 150, 156 and 158\<close>
  | DeleteObject          \<comment> \<open>line 147\<close>
  | PrintAlbert           \<comment> \<open>lines 151 and 159\<close>
  | DeleteExpr            \<comment> \<open>line 157\<close>

definition name_birthday :: "row \<Rightarrow> pyval" where
  "name_birthday r = PTuple [py_str (name (snd r)), py_datetime (birthday (snd r))]"

definition name_grade :: "row \<Rightarrow> pyval" where
  "name_grade r = PTuple [py_str (name (snd r)), py_int (grade (snd r))]"

definition print_id :: "pyobj \<Rightarrow> state \<Rightarrow> error + state" where
  "print_id x s =
     (case x of
        PyNone \<Rightarrow> Inl AttributeError
      | Transient y \<Rightarrow> Inr (print (PStr (''New student ID is '' @ fmt_int (id_col y) @ ''.'')) s)
      | Persistent y \<Rightarrow> Inr (print (PStr (''New student ID is '' @ fmt_int (id_col y) @ ''.'')) s))"

text \<open>
  \<open>exec class_time now c s\<close> runs statement \<open>c\<close> at time \<open>now\<close> in state \<open>s\<close>, for the class
  defined at \<open>class_time\<close>.
\<close>

fun exec :: "datetime \<Rightarrow> datetime \<Rightarrow> stmt \<Rightarrow> state \<Rightarrow> error + state" where
  "exec ct now BulkSaveObjects s =
     (case bulk_save_objects (enrolled_date_default ct) now
             [albert_einstein s, alan_turing s] (working s) of
        Inl e \<Rightarrow> Inl e
      | Inr t \<Rightarrow> Inr (s\<lparr>working := t\<rparr>))"
| "exec ct now Commit s = commit s"
| "exec ct now PrintIdAlbert s = print_id (albert_einstein s) s"
| "exec ct now PrintIdAlan s = print_id (alan_turing s) s"
| "exec ct now PrintStudents s =
     query (\<lambda>s. Inr (print (PList (map (\<lambda>r. PObj (Student_repr (load r))) (working s))) s)) s"
| "exec ct now PrintNames s =
     query (\<lambda>s. Inr (print (PList (map (\<lambda>r. PTuple [py_str (name (snd r))]) (working s))) s)) s"
| "exec ct now PrintNamesByName s =
     query (\<lambda>s. Inr (print (PList (map (\<lambda>r. PTuple [py_str (name (snd r))])
                                      (order_by by_name (working s)))) s)) s"
| "exec ct now PrintByGradeDesc s =
     query (\<lambda>s. Inr (print (PList (map name_grade (order_by by_grade_desc (working s)))) s)) s"
| "exec ct now PrintOldestLimit s =
     query (\<lambda>s. Inr (print (PList (map name_birthday
                                      (limit 1 (order_by by_grade_desc (working s))))) s)) s"
| "exec ct now PrintOldestFirst s =
     query (\<lambda>s. Inr (print (case first (order_by by_grade_desc (working s)) of
                                None \<Rightarrow> PNone | Some r \<Rightarrow> name_birthday r) s)) s"
| "exec ct now PrintCount s =
     query (\<lambda>s. Inr (print (PTuple [PInt (int (length (working s)))]) s)) s"
| "exec ct now PrintAlanGrade11 s =
     query (\<lambda>s. Inr (foldl (\<lambda>s record. print (py_str (name record)) s) s
                        (map load (filter (\<lambda>r. name_like ''%Alan%'' r \<and> grade_eq 11 r)
                                          (working s))))) s"
| "exec ct now IncrementGrades s =
     query (\<lambda>s. case increment_grades (map load (working s)) of
                   Inl e \<Rightarrow> Inl e
                 | Inr xs \<Rightarrow> Inr (s\<lparr>dirty := xs\<rparr>)) s"
| "exec ct now PrintNameGrade s =
     query (\<lambda>s. Inr (print (PList (map name_grade (working s))) s)) s"
| "exec ct now UpdateExpr s =
     query (\<lambda>s. Inr (s\<lparr>working := update_expr (working s)\<rparr>)) s"
| "exec ct now FirstAlbert s =
     query (\<lambda>s. Inr (s\<lparr>albert_einstein :=
                          (case first (filter (name_eq ''Albert Einstein'') (working s)) of
                             None \<Rightarrow> PyNone | Some r \<Rightarrow> Persistent (load r))\<rparr>)) s"
| "exec ct now DeleteObject s = session_delete (albert_einstein s) s"
| "exec ct now PrintAlbert s =
     Inr (print (case albert_einstein s of
                   PyNone \<Rightarrow> PNone
                 | Transient y \<Rightarrow> PObj (Student_repr y)
                 | Persistent y \<Rightarrow> PObj (Student_repr y)) s)"
| "exec ct now DeleteExpr s =
     query (\<lambda>s. Inr (s\<lparr>working := delete_expr (name_eq ''Albert Einstein'') (working s)\<rparr>)) s"

text \<open>
  A run of statements; statement \<open>k\<close> of the run executes at time \<open>clock k\<close>. An exception
  ends the run.
\<close>

fun run :: "datetime \<Rightarrow> (nat \<Rightarrow> datetime) \<Rightarrow> stmt list \<Rightarrow> state \<Rightarrow> error + state" where
  "run ct clock [] s = Inr s"
| "run ct clock (c # cs) s =
     (case exec ct (clock 0) c s of
        Inl e \<Rightarrow> Inl e
      | Inr s' \<Rightarrow> run ct (\<lambda>k. clock (Suc k)) cs s')"

definition creating :: "stmt list" where
  "creating = [BulkSaveObjects, Commit, PrintIdAlbert, PrintIdAlan]"

definition reading :: "stmt list" where
  "reading = [PrintStudents, PrintStudents, PrintNames, PrintNamesByName, PrintByGradeDesc,
              PrintOldestLimit, PrintOldestFirst, PrintCount, PrintAlanGrade11]"

definition updating :: "stmt list" where
  "updating = [IncrementGrades, Commit, PrintNameGrade, UpdateExpr, PrintNameGrade]"

definition deleting :: "stmt list" where
  "deleting = [FirstAlbert, DeleteObject, Commit, FirstAlbert, PrintAlbert,
               DeleteExpr, FirstAlbert, PrintAlbert]"

definition script :: "stmt list" where
  "script = creating @ reading @ updating @ deleting"

subsection \<open>The states the script passes through\<close>

text \<open>
  A clock that shows the same time whenever it is read, the rows the two instances are
  stored as (key \<open>i\<close>, class defined at \<open>ct\<close>, grade \<open>g\<close>), and the state after each part
  of the script.
\<close>

definition const_clock :: "datetime \<Rightarrow> nat \<Rightarrow> datetime" where
  "const_clock d k = d"

definition stored :: "int \<Rightarrow> datetime \<Rightarrow> int \<Rightarrow> student \<Rightarrow> row" where
  "stored i ct g x = (i, (values_of x)\<lparr>grade := Some g, enrolled_date := Some ct\<rparr>)"

definition students :: "datetime \<Rightarrow> int \<Rightarrow> table" where
  "students ct k = [stored 1 ct (6 + k) albert_einstein0, stored 2 ct (11 + k) alan_turing0]"

definition turing_birthday :: pyval where
  "turing_birthday = PTuple [PStr ''Alan Turing'', PDatetime (date 1912 6 23)]"

definition after_creating :: "datetime \<Rightarrow> state" where
  "after_creating ct = init\<lparr>committed := students ct 0, working := students ct 0,
     stdout := [PStr ''New student ID is None.'', PStr ''New student ID is None.'']\<rparr>"

definition after_reading :: "datetime \<Rightarrow> state" where
  "after_reading ct = (after_creating ct)\<lparr>stdout := stdout (after_creating ct) @
     [PList [PObj ''Student 1: Albert Einstein, Grade 6'', PObj ''Student 2: Alan Turing, Grade 11''],
      PList [PObj ''Student 1: Albert Einstein, Grade 6'', PObj ''Student 2: Alan Turing, Grade 11''],
      PList [PTuple [PStr ''Albert Einstein''], PTuple [PStr ''Alan Turing'']],
      PList [PTuple [PStr ''Alan Turing''], PTuple [PStr ''Albert Einstein'']],
      PList [PTuple [PStr ''Alan Turing'', PInt 11], PTuple [PStr ''Albert Einstein'', PInt 6]],
      PList [turing_birthday],
      turing_birthday,
      PTuple [PInt 2],
      PStr ''Alan Turing'']\<rparr>"

definition after_updating :: "datetime \<Rightarrow> state" where
  "after_updating ct = (after_reading ct)\<lparr>committed := students ct 1, working := students ct 2,
     stdout := stdout (after_reading ct) @
     [PList [PTuple [PStr ''Albert Einstein'', PInt 7], PTuple [PStr ''Alan Turing'', PInt 12]],
      PList [PTuple [PStr ''Albert Einstein'', PInt 8], PTuple [PStr ''Alan Turing'', PInt 13]]]\<rparr>"

definition after_deleting :: "datetime \<Rightarrow> state" where
  "after_deleting ct = (after_updating ct)\<lparr>committed := [stored 2 ct 13 alan_turing0],
     working := [stored 2 ct 13 alan_turing0], albert_einstein := PyNone,
     stdout := stdout (after_updating ct) @ [PNone, PNone]\<rparr>"

text \<open>A session opened on a table \<open>t\<close> that is already committed.\<close>

definition session_on :: "table \<Rightarrow> state" where
  "session_on t = init\<lparr>committed := t, working := t\<rparr>"

text \<open>
  A state has a change pending when the open transaction differs from what is committed
  or the session holds a change it has not flushed. \<open>pendings\<close> lists, for each statement
  of a run, whether the statement begins with a change pending.
\<close>

definition pending :: "state \<Rightarrow> bool" where
  "pending s = (working s \<noteq> committed s \<or> dirty s \<noteq> [] \<or> deleted s \<noteq> [])"

fun pendings :: "datetime \<Rightarrow> (nat \<Rightarrow> datetime) \<Rightarrow> stmt list \<Rightarrow> state \<Rightarrow> bool list" where
  "pendings ct clock [] s = []"
| "pendings ct clock (c # cs) s =
     pending s #
     (case exec ct (clock 0) c s of
        Inl e \<Rightarrow> []
      | Inr s' \<Rightarrow> pendings ct (\<lambda>k. clock (Suc k)) cs s')"

section \<open>Running the script\<close>

lemmas model_defs = init_def bulk_save_objects_def insert_row_def Let_def
      enrolled_date_default_def apply_default_def albert_einstein0_def alan_turing0_def
      values_of_def bindable_def int64_def next_rowid_def commit_def flush_def print_id_def
      print_def fmt_int_def query_def load_def update_row_def delete_row_def update_expr_def
      delete_expr_def sql_plus1_def name_eq_def grade_eq_def name_like_def ascii_lower_def
      order_by_def by_name_def by_grade_desc_def limit_def first_def fmt_str_def str_int_def
      Student_repr_def py_int_def py_str_def py_datetime_def session_delete_def
      name_birthday_def name_grade_def date_def digits.simps

lemmas state_defs = after_creating_def after_reading_def after_updating_def after_deleting_def
  students_def stored_def turing_birthday_def

lemma run_append:
  "run ct clock (xs @ ys) s =
     (case run ct clock xs s of
        Inl e \<Rightarrow> Inl e
      | Inr s' \<Rightarrow> run ct (\<lambda>k. clock (length xs + k)) ys s')"
  by (induction xs arbitrary: clock s) (auto split: sum.splits)

lemma run_creating: "run ct clock creating init = Inr (after_creating ct)"
  by (simp add: creating_def state_defs model_defs)

lemma run_reading: "run ct clock reading (after_creating ct) = Inr (after_reading ct)"
  by (simp add: reading_def state_defs model_defs)

lemma run_updating: "run ct clock updating (after_reading ct) = Inr (after_updating ct)"
  by (simp add: updating_def state_defs model_defs)

lemma run_deleting: "run ct clock deleting (after_updating ct) = Inr (after_deleting ct)"
  by (simp add: deleting_def state_defs model_defs)

lemma run_script: "run ct clock script init = Inr (after_deleting ct)"
  by (simp add: script_def run_append run_creating run_reading run_updating run_deleting)




section \<open>Rows stay in key order\<close>

lemma below_last: "sorted_wrt (<) xs \<Longrightarrow> x \<in> set xs \<Longrightarrow> x \<le> last (xs :: int list)"
proof (induction xs)
  case Nil
  then show ?case by simp
next
  case (Cons a xs)
  show ?case
  proof (cases "xs = []")
    case True
    with Cons.prems show ?thesis by simp
  next
    case False
    from Cons.prems have sorted: "sorted_wrt (<) xs" and above: "\<forall>y\<in>set xs. a < y"
      by simp_all
    from False have "last xs \<in> set xs" by simp
    with above have "a < last xs" by blast
    moreover have "x \<le> last xs" if "x \<in> set xs"
      using Cons.IH [OF sorted that] .
    ultimately have "x \<le> last xs"
      using Cons.prems(2) by auto
    with False show ?thesis by simp
  qed
qed

lemma set_place_row: "set (place_row r t) = insert r (set t)"
  by (induction t) auto

lemma table_ok_place_row:
  "table_ok t \<Longrightarrow> i \<notin> set (map fst t) \<Longrightarrow> table_ok (place_row (i, c) t)"
  unfolding table_ok_def
  by (induction t) (auto simp: set_place_row)

lemma table_ok_append:
  assumes "table_ok t" "t \<noteq> []"
  shows "table_ok (t @ [(fst (last t) + 1, c)])"
proof -
  have "x < fst (last t) + 1" if "x \<in> set (map fst t)" for x
    using below_last [of "map fst t" x] assms that
    by (simp add: table_ok_def last_map)
  then show ?thesis
    using assms by (auto simp: table_ok_def sorted_wrt_append)
qed

lemma table_ok_insert_row:
  assumes "table_ok t" "insert_row d now x t = Inr t'"
  shows "table_ok t'"
proof (cases "id_col x")
  case None
  show ?thesis
  proof (cases "t = []")
    case True
    with assms None show ?thesis
      by (auto simp: insert_row_def Let_def next_rowid_def table_ok_def split: if_splits)
  next
    case False
    with assms None show ?thesis
      by (auto simp: insert_row_def Let_def next_rowid_def table_ok_append split: if_splits)
  qed
next
  case (Some i)
  with assms show ?thesis
    by (auto simp: insert_row_def Let_def table_ok_place_row split: if_splits)
qed


lemma table_ok_bulk_insert:
  "table_ok t \<Longrightarrow> bulk_insert d now xs t = Inr t' \<Longrightarrow> table_ok t'"
  by (induction d now xs t rule: bulk_insert.induct)
     (auto split: sum.splits dest: table_ok_insert_row)

lemma fst_update_row: "update_row x t = Inr t' \<Longrightarrow> map fst t' = map fst t"
  by (auto simp: update_row_def split: if_splits)

lemma table_ok_update_row: "table_ok t \<Longrightarrow> update_row x t = Inr t' \<Longrightarrow> table_ok t'"
  by (simp add: table_ok_def fst_update_row)

lemma table_ok_update_rows: "table_ok t \<Longrightarrow> update_rows xs t = Inr t' \<Longrightarrow> table_ok t'"
  by (induction xs arbitrary: t) (auto split: sum.splits dest: table_ok_update_row)

lemma table_ok_filter: "table_ok t \<Longrightarrow> table_ok (filter p t)"
  by (induction t) (auto simp: table_ok_def)

lemma table_ok_delete_rows: "table_ok t \<Longrightarrow> table_ok (foldr delete_row xs t)"
  by (induction xs) (auto simp: delete_row_def table_ok_filter)

lemma table_ok_update_expr: "table_ok t \<Longrightarrow> table_ok (update_expr t)"
  by (simp add: update_expr_def table_ok_def comp_def)

lemma table_ok_flush:
  assumes "table_ok (working s)" "flush s = Inr s'"
  shows "table_ok (working s')"
proof -
  from assms(2) obtain t where
    t: "update_rows [x \<leftarrow> dirty s. id_col x \<notin> set (map id_col (deleted s))] (working s) = Inr t"
    and s': "s' = s\<lparr>working := foldr delete_row (deleted s) t, dirty := [], deleted := []\<rparr>"
    by (auto simp: flush_def split: sum.splits)
  from assms(1) t have "table_ok t" by (rule table_ok_update_rows)
  then show ?thesis by (simp add: s' table_ok_delete_rows)
qed


lemma table_ok_query:
  assumes "table_ok (working s)" "query f s = Inr s'"
    and "\<And>u u'. table_ok (working u) \<Longrightarrow> f u = Inr u' \<Longrightarrow> table_ok (working u')"
  shows "table_ok (working s')"
proof -
  from assms(2) obtain u where u: "flush s = Inr u" and f: "f u = Inr s'"
    by (auto simp: query_def split: sum.splits)
  from assms(1) u have "table_ok (working u)" by (rule table_ok_flush)
  then show ?thesis using f by (rule assms(3))
qed

lemma working_print: "working (print v s) = working s"
  by (simp add: print_def)

lemma working_print_all: "working (foldl (\<lambda>s x. print (f x) s) s xs) = working s"
  by (induction xs arbitrary: s) (simp_all add: working_print)

lemma table_ok_exec:
  assumes "table_ok (working s)" and "exec ct now c s = Inr s'"
  shows "table_ok (working s')"
  using assms
  by (cases c)
     (auto simp: bulk_save_objects_def commit_def print_id_def working_print working_print_all
                 session_delete_def delete_expr_def table_ok_update_expr table_ok_filter
           split: sum.splits if_splits pyobj.splits
           dest: table_ok_flush table_ok_bulk_insert
           elim!: table_ok_query [rotated])

lemma table_ok_run:
  "table_ok (working s) \<Longrightarrow> run ct clock cs s = Inr s' \<Longrightarrow> table_ok (working s')"
proof (induction cs arbitrary: clock s)
  case Nil
  then show ?case by simp
next
  case (Cons c cs)
  from Cons.prems(2) obtain u where u: "exec ct (clock 0) c s = Inr u"
    and r: "run ct (\<lambda>k. clock (Suc k)) cs u = Inr s'"
    by (auto split: sum.splits)
  from Cons.prems(1) u have "table_ok (working u)" by (rule table_ok_exec)
  then show ?case using r by (rule Cons.IH)
qed



section \<open>The claims\<close>

lemma flush_keeps_stdout: "flush s = Inr s' \<Longrightarrow> stdout s' = stdout s"
  by (auto simp: flush_def split: sum.splits)

lemma table_ok_init_run:
  "run ct clock cs init = Inr u \<Longrightarrow> table_ok (working u)"
proof -
  assume r: "run ct clock cs init = Inr u"
  have "table_ok (working init)" by (simp add: init_def table_ok_def)
  then show "table_ok (working u)" using r by (rule table_ok_run)
qed

lemma print_students_reads_table:
  assumes "table_ok (working u)" "exec ct now PrintStudents u = Inr v"
  shows "stdout v = stdout u @ [PList (map (\<lambda>r. PObj (Student_repr (load r))) (working v))]
         \<and> sorted_wrt (<) (map fst (working v))"
proof -
  from assms(2) obtain f where f: "flush u = Inr f"
    and v: "v = print (PList (map (\<lambda>r. PObj (Student_repr (load r))) (working f))) f"
    by (auto simp: query_def split: sum.splits)
  from assms(1) f have "table_ok (working f)" by (rule table_ok_flush)
  then show ?thesis
    by (simp add: v print_def flush_keeps_stdout [OF f] table_ok_def)
qed

lemma print_names_reads_table:
  assumes "table_ok (working u)" "exec ct now PrintNames u = Inr w"
  shows "stdout w = stdout u @ [PList (map (\<lambda>r. PTuple [py_str (name (snd r))]) (working w))]
         \<and> sorted_wrt (<) (map fst (working w))"
proof -
  from assms(2) obtain f where f: "flush u = Inr f"
    and w: "w = print (PList (map (\<lambda>r. PTuple [py_str (name (snd r))]) (working f))) f"
    by (auto simp: query_def split: sum.splits)
  from assms(1) f have "table_ok (working f)" by (rule table_ok_flush)
  then show ?thesis
    by (simp add: w print_def flush_keeps_stdout [OF f] table_ok_def)
qed

lemma exec_print_students_created:
  "exec ct now PrintStudents (after_creating ct)
     = Inr (print (PList [PObj ''Student 1: Albert Einstein, Grade 6'',
                          PObj ''Student 2: Alan Turing, Grade 11'']) (after_creating ct))"
  by (simp add: state_defs model_defs)

lemma exec_print_names_created:
  "exec ct now PrintNames (after_creating ct)
     = Inr (print (PList [PTuple [PStr ''Albert Einstein''], PTuple [PStr ''Alan Turing'']])
              (after_creating ct))"
  by (simp add: state_defs model_defs)

text \<open>
  Claim C9. A query of the whole table with no ORDER BY returns the rows in ascending order
  of their identifier. Take any run of statements from the initial state, whatever the
  clock, and let the read of lines 73 to 77 or the read of line 79 follow it: what is
  printed is the working table row by row, as instances (each carrying the key of its row)
  or as names, and the keys of that table are strictly ascending. In the script the two
  reads of full instances and the read of the names each give Albert Einstein ahead of
  Alan Turing.
\<close>

theorem unfiltered_query_in_id_order:
  "(run ct clock cs init = Inr u \<and> exec ct now PrintStudents u = Inr v \<longrightarrow>
      stdout v = stdout u @ [PList (map (\<lambda>r. PObj (Student_repr (load r))) (working v))]
      \<and> map id_col (map load (working v)) = map (\<lambda>r. Some (fst r)) (working v)
      \<and> sorted_wrt (<) (map fst (working v)))
   \<and> (run ct clock cs init = Inr u \<and> exec ct now PrintNames u = Inr w \<longrightarrow>
      stdout w = stdout u @ [PList (map (\<lambda>r. PTuple [py_str (name (snd r))]) (working w))]
      \<and> sorted_wrt (<) (map fst (working w)))
   \<and> (\<exists>u. run ct clock (creating @ reading) init = Inr u \<and>
          take 3 (drop 2 (stdout u)) =
            [PList [PObj ''Student 1: Albert Einstein, Grade 6'',
                    PObj ''Student 2: Alan Turing, Grade 11''],
             PList [PObj ''Student 1: Albert Einstein, Grade 6'',
                    PObj ''Student 2: Alan Turing, Grade 11''],
             PList [PTuple [PStr ''Albert Einstein''], PTuple [PStr ''Alan Turing'']]])"
proof (intro conjI impI)
  assume a: "run ct clock cs init = Inr u \<and> exec ct now PrintStudents u = Inr v"
  then have ok: "table_ok (working u)" by (intro table_ok_init_run, elim conjE)
  from a have e: "exec ct now PrintStudents u = Inr v" by (rule conjunct2)
  note p = print_students_reads_table [OF ok e]
  show "stdout v = stdout u @ [PList (map (\<lambda>r. PObj (Student_repr (load r))) (working v))]"
    using p by (rule conjunct1)
  show "sorted_wrt (<) (map fst (working v))"
    using p by (rule conjunct2)
  show "map id_col (map load (working v)) = map (\<lambda>r. Some (fst r)) (working v)"
    by (simp add: load_def)
next
  assume a: "run ct clock cs init = Inr u \<and> exec ct now PrintNames u = Inr w"
  then have ok: "table_ok (working u)" by (intro table_ok_init_run, elim conjE)
  from a have e: "exec ct now PrintNames u = Inr w" by (rule conjunct2)
  note p = print_names_reads_table [OF ok e]
  show "stdout w = stdout u @ [PList (map (\<lambda>r. PTuple [py_str (name (snd r))]) (working w))]"
    using p by (rule conjunct1)
  show "sorted_wrt (<) (map fst (working w))"
    using p by (rule conjunct2)
next
  have f0: "run ct clock (creating @ reading) init = Inr (after_reading ct)"
    by (simp only: run_append run_creating run_reading sum.case)
  have f1: "take 3 (drop 2 (stdout (after_reading ct))) =
            [PList [PObj ''Student 1: Albert Einstein, Grade 6'',
                    PObj ''Student 2: Alan Turing, Grade 11''],
             PList [PObj ''Student 1: Albert Einstein, Grade 6'',
                    PObj ''Student 2: Alan Turing, Grade 11''],
             PList [PTuple [PStr ''Albert Einstein''], PTuple [PStr ''Alan Turing'']]]"
    by (simp add: after_reading_def after_creating_def)
  show "\<exists>u. run ct clock (creating @ reading) init = Inr u \<and>
          take 3 (drop 2 (stdout u)) =
            [PList [PObj ''Student 1: Albert Einstein, Grade 6'',
                    PObj ''Student 2: Alan Turing, Grade 11''],
             PList [PObj ''Student 1: Albert Einstein, Grade 6'',
                    PObj ''Student 2: Alan Turing, Grade 11''],
             PList [PTuple [PStr ''Albert Einstein''], PTuple [PStr ''Alan Turing'']]]"
    by (intro exI conjI) (rule f0 f1)+
qed

theorem unfiltered_query_in_id_order_witness:
  "run (date 2024 1 1) (const_clock (date 2024 1 2)) creating init
     = Inr (after_creating (date 2024 1 1))
   \<and> exec (date 2024 1 1) (date 2024 1 2) PrintStudents (after_creating (date 2024 1 1))
     = Inr (print (PList [PObj ''Student 1: Albert Einstein, Grade 6'',
                          PObj ''Student 2: Alan Turing, Grade 11''])
              (after_creating (date 2024 1 1)))
   \<and> exec (date 2024 1 1) (date 2024 1 2) PrintNames (after_creating (date 2024 1 1))
     = Inr (print (PList [PTuple [PStr ''Albert Einstein''], PTuple [PStr ''Alan Turing'']])
              (after_creating (date 2024 1 1)))
   \<and> map fst (working (after_creating (date 2024 1 1))) = [1, 2]
   \<and> PList (map (\<lambda>r. PObj (Student_repr (load r))) (working (after_creating (date 2024 1 1))))
     = PList [PObj ''Student 1: Albert Einstein, Grade 6'',
              PObj ''Student 2: Alan Turing, Grade 11'']
   \<and> PList (map (\<lambda>r. PTuple [py_str (name (snd r))]) (working (after_creating (date 2024 1 1))))
     = PList [PTuple [PStr ''Albert Einstein''], PTuple [PStr ''Alan Turing'']]
   \<and> sorted_wrt (<) (map fst (working (after_creating (date 2024 1 1))))"
proof -
  let ?u = "after_creating (date 2024 1 1)"
  let ?v = "print (PList [PObj ''Student 1: Albert Einstein, Grade 6'',
                          PObj ''Student 2: Alan Turing, Grade 11'']) ?u"
  let ?w = "print (PList [PTuple [PStr ''Albert Einstein''], PTuple [PStr ''Alan Turing'']]) ?u"
  have r: "run (date 2024 1 1) (const_clock (date 2024 1 2)) creating init = Inr ?u"
    by (rule run_creating)
  have e1: "exec (date 2024 1 1) (date 2024 1 2) PrintStudents ?u = Inr ?v"
    by (rule exec_print_students_created)
  have e2: "exec (date 2024 1 1) (date 2024 1 2) PrintNames ?u = Inr ?w"
    by (rule exec_print_names_created)
  note t = unfiltered_query_in_id_order
    [of "date 2024 1 1" "const_clock (date 2024 1 2)" creating ?u "date 2024 1 2" ?v ?w]
  have c1: "stdout ?v = stdout ?u @ [PList (map (\<lambda>r. PObj (Student_repr (load r))) (working ?v))]
      \<and> map id_col (map load (working ?v)) = map (\<lambda>r. Some (fst r)) (working ?v)
      \<and> sorted_wrt (<) (map fst (working ?v))"
    by (rule mp [OF conjunct1 [OF t] conjI [OF r e1]])
  have c2: "stdout ?w = stdout ?u @ [PList (map (\<lambda>r. PTuple [py_str (name (snd r))]) (working ?w))]
      \<and> sorted_wrt (<) (map fst (working ?w))"
    by (rule mp [OF conjunct1 [OF conjunct2 [OF t]] conjI [OF r e2]])
  have k: "map fst (working ?u) = [1, 2]"
    by (simp add: state_defs)
  from c1 have s1: "PList (map (\<lambda>r. PObj (Student_repr (load r))) (working ?u))
     = PList [PObj ''Student 1: Albert Einstein, Grade 6'',
              PObj ''Student 2: Alan Turing, Grade 11'']"
    by (simp add: print_def)
  from c2 have s2: "PList (map (\<lambda>r. PTuple [py_str (name (snd r))]) (working ?u))
     = PList [PTuple [PStr ''Albert Einstein''], PTuple [PStr ''Alan Turing'']]"
    by (simp add: print_def)
  from c1 have s3: "sorted_wrt (<) (map fst (working ?u))"
    by (simp add: print_def)
  from r e1 e2 k s1 s2 s3 show ?thesis by (intro conjI)
qed

text \<open>
  Claim C1. The claim is that after the bulk insert of line 63 and the commit of line 64
  the two instances in memory hold distinct generated identifiers, Albert Einstein's the
  lower, and that lines 66 and 67 print them. The run of the script shows what the code
  does instead: the two rows are stored with the identifiers 1 (Albert Einstein) and 2
  (Alan Turing), but \<^verbatim>\<open>bulk_save_objects\<close> is called without \<^verbatim>\<open>return_defaults\<close>, so the
  instances are not given them; their \<^verbatim>\<open>id\<close> is still \<^verbatim>\<open>None\<close>, and lines 66 and 67, written
  to show the new identifiers, both print \<^verbatim>\<open>New student ID is None.\<close>
\<close>

theorem bulk_insert_ids:
  "\<exists>s. run ct clock creating init = Inr s
     \<and> map fst (working s) = [1, 2]
     \<and> map (\<lambda>r. name (snd r)) (working s) = [Some ''Albert Einstein'', Some ''Alan Turing'']
     \<and> committed s = working s
     \<and> albert_einstein s = Transient albert_einstein0 \<and> id_col albert_einstein0 = None
     \<and> alan_turing s = Transient alan_turing0 \<and> id_col alan_turing0 = None
     \<and> stdout s = [PStr ''New student ID is None.'', PStr ''New student ID is None.'']"
  unfolding run_creating
  by (simp add: after_creating_def init_def albert_einstein0_def alan_turing0_def
      students_def stored_def values_of_def)

theorem bulk_insert_ids_witness:
  "\<exists>s. run (date 2024 1 1) (const_clock (date 2024 1 2)) creating init = Inr s
     \<and> map fst (working s) = [1, 2]
     \<and> map (\<lambda>r. name (snd r)) (working s) = [Some ''Albert Einstein'', Some ''Alan Turing'']
     \<and> committed s = working s
     \<and> albert_einstein s = Transient albert_einstein0 \<and> id_col albert_einstein0 = None
     \<and> alan_turing s = Transient alan_turing0 \<and> id_col alan_turing0 = None
     \<and> stdout s = [PStr ''New student ID is None.'', PStr ''New student ID is None.'']"
  using bulk_insert_ids [of "date 2024 1 1" "const_clock (date 2024 1 2)"] .

lemma set_insert_row:
  assumes "insert_row d now x t = Inr t'"
  shows "\<exists>i. set t' = insert (i, (values_of x)\<lparr>enrolled_date := apply_default d now (enrolled_date x)\<rparr>) (set t)"
  using assms
  by (auto simp: insert_row_def Let_def set_place_row split: if_splits option.splits sum.splits)

text \<open>
  Claim C4. The default of \<^verbatim>\<open>enrolled_date\<close> is the one timestamp taken when the class is
  defined: a row inserted without an \<^verbatim>\<open>enrolled_date\<close> is stored with that timestamp,
  the INSERT gives the same table at whatever time it runs, and the two rows of the script
  are stored with the same \<^verbatim>\<open>enrolled_date\<close>.
\<close>

theorem enrolled_date_fixed_at_class_definition:
  "(enrolled_date x = None \<and> insert_row (enrolled_date_default ct) now x t = Inr t' \<longrightarrow>
      (\<exists>i. set t' = insert (i, (values_of x)\<lparr>enrolled_date := Some ct\<rparr>) (set t)))
   \<and> insert_row (enrolled_date_default ct) now x t = insert_row (enrolled_date_default ct) now' x t
   \<and> (\<exists>s. run ct clock creating init = Inr s
          \<and> map (\<lambda>r. enrolled_date (snd r)) (committed s) = [Some ct, Some ct])"
proof (intro conjI impI)
  assume a: "enrolled_date x = None \<and> insert_row (enrolled_date_default ct) now x t = Inr t'"
  then show "\<exists>i. set t' = insert (i, (values_of x)\<lparr>enrolled_date := Some ct\<rparr>) (set t)"
    using set_insert_row [of "enrolled_date_default ct" now x t t']
    by (simp add: enrolled_date_default_def apply_default_def)
next
  show "insert_row (enrolled_date_default ct) now x t = insert_row (enrolled_date_default ct) now' x t"
    by (simp add: insert_row_def enrolled_date_default_def apply_default_def split: option.splits)
next
  show "\<exists>s. run ct clock creating init = Inr s
          \<and> map (\<lambda>r. enrolled_date (snd r)) (committed s) = [Some ct, Some ct]"
    by (simp add: run_creating after_creating_def students_def stored_def)
qed

theorem enrolled_date_fixed_at_class_definition_witness:
  "enrolled_date albert_einstein0 = None
   \<and> insert_row (enrolled_date_default (date 2024 1 1)) (date 2024 1 2) albert_einstein0 []
       = Inr [stored 1 (date 2024 1 1) 6 albert_einstein0]
   \<and> (\<exists>i. set [stored 1 (date 2024 1 1) 6 albert_einstein0]
          = insert (i, (values_of albert_einstein0)\<lparr>enrolled_date := Some (date 2024 1 1)\<rparr>) (set []))"
proof -
  have e: "enrolled_date albert_einstein0 = None"
    by (simp add: albert_einstein0_def)
  have i: "insert_row (enrolled_date_default (date 2024 1 1)) (date 2024 1 2) albert_einstein0 []
       = Inr [stored 1 (date 2024 1 1) 6 albert_einstein0]"
    by (simp add: model_defs stored_def)
  from e i enrolled_date_fixed_at_class_definition
    [of albert_einstein0 "date 2024 1 1" "date 2024 1 2" "[]"
        "[stored 1 (date 2024 1 1) 6 albert_einstein0]"]
  show ?thesis by blast
qed

lemma run_incrementing:
  "run ct clock [IncrementGrades, Commit] (after_reading ct)
     = Inr ((after_reading ct)\<lparr>committed := students ct 1, working := students ct 1\<rparr>)"
  by (simp add: state_defs model_defs)

text \<open>
  Claim C6. Before the updates the grades are 6 and 11. After the loop of lines 128 and 129
  and the commit of line 131 each grade is one more, 7 and 12; after the UPDATE of line 136
  each is one more again, 8 for Albert Einstein and 13 for Alan Turing, and no row of that
  table has grade 6.
\<close>

theorem grades_after_both_increments:
  "\<exists>s0 s1 s2.
      run ct clock (creating @ reading) init = Inr s0
    \<and> map (\<lambda>r. (name (snd r), grade (snd r))) (working s0)
        = [(Some ''Albert Einstein'', Some 6), (Some ''Alan Turing'', Some 11)]
    \<and> run ct clock (creating @ reading @ [IncrementGrades, Commit]) init = Inr s1
    \<and> map (\<lambda>r. (name (snd r), grade (snd r))) (working s1)
        = [(Some ''Albert Einstein'', Some (6 + 1)), (Some ''Alan Turing'', Some (11 + 1))]
    \<and> run ct clock (creating @ reading @ updating) init = Inr s2
    \<and> map (\<lambda>r. (name (snd r), grade (snd r))) (working s2)
        = [(Some ''Albert Einstein'', Some 8), (Some ''Alan Turing'', Some 13)]
    \<and> filter (grade_eq 6) (working s2) = []"
proof -
  have f0: "run ct clock (creating @ reading) init = Inr (after_reading ct)"
    by (simp add: run_append run_creating run_reading)
  have f1: "map (\<lambda>r. (name (snd r), grade (snd r))) (working (after_reading ct))
        = [(Some ''Albert Einstein'', Some 6), (Some ''Alan Turing'', Some 11)]"
    by (simp add: state_defs values_of_def albert_einstein0_def alan_turing0_def)
  have f2: "run ct clock (creating @ reading @ [IncrementGrades, Commit]) init
        = Inr ((after_reading ct)\<lparr>committed := students ct 1, working := students ct 1\<rparr>)"
    by (simp only: run_append run_creating run_reading run_incrementing sum.case)
  have f3: "map (\<lambda>r. (name (snd r), grade (snd r)))
          (working ((after_reading ct)\<lparr>committed := students ct 1, working := students ct 1\<rparr>))
        = [(Some ''Albert Einstein'', Some (6 + 1)), (Some ''Alan Turing'', Some (11 + 1))]"
    by (simp add: state_defs values_of_def albert_einstein0_def alan_turing0_def)
  have f4: "run ct clock (creating @ reading @ updating) init = Inr (after_updating ct)"
    by (simp only: run_append run_creating run_reading run_updating sum.case)
  have f5: "map (\<lambda>r. (name (snd r), grade (snd r))) (working (after_updating ct))
        = [(Some ''Albert Einstein'', Some 8), (Some ''Alan Turing'', Some 13)]"
    by (simp add: state_defs values_of_def albert_einstein0_def alan_turing0_def)
  have f6: "filter (grade_eq 6) (working (after_updating ct)) = []"
    by (simp add: state_defs grade_eq_def)
  show ?thesis
    by (intro exI conjI) (rule f0 f1 f2 f3 f4 f5 f6)+
qed

theorem grades_after_both_increments_witness:
  "\<exists>s0 s1 s2.
      run (date 2024 1 1) (const_clock (date 2024 1 2)) (creating @ reading) init = Inr s0
    \<and> map (\<lambda>r. (name (snd r), grade (snd r))) (working s0)
        = [(Some ''Albert Einstein'', Some 6), (Some ''Alan Turing'', Some 11)]
    \<and> run (date 2024 1 1) (const_clock (date 2024 1 2))
          (creating @ reading @ [IncrementGrades, Commit]) init = Inr s1
    \<and> map (\<lambda>r. (name (snd r), grade (snd r))) (working s1)
        = [(Some ''Albert Einstein'', Some (6 + 1)), (Some ''Alan Turing'', Some (11 + 1))]
    \<and> run (date 2024 1 1) (const_clock (date 2024 1 2))
          (creating @ reading @ updating) init = Inr s2
    \<and> map (\<lambda>r. (name (snd r), grade (snd r))) (working s2)
        = [(Some ''Albert Einstein'', Some 8), (Some ''Alan Turing'', Some 13)]
    \<and> filter (grade_eq 6) (working s2) = []"
  using grades_after_both_increments [of "date 2024 1 1" "const_clock (date 2024 1 2)"] .

lemma run_first_albert:
  "exec ct now FirstAlbert (after_updating ct)
     = Inr ((after_updating ct)\<lparr>albert_einstein :=
              Persistent (load (stored 1 ct 8 albert_einstein0))\<rparr>)"
  by (simp add: state_defs model_defs)

text \<open>
  Claim C10. In the state the script is in at line 143, exactly one row has the name
  Albert Einstein. \<^verbatim>\<open>query.first()\<close> of line 145 therefore returns a loaded instance and
  not \<^verbatim>\<open>None\<close>, and \<^verbatim>\<open>session.delete\<close> of line 147 accepts it: it raises nothing and
  marks that instance for deletion.
\<close>

theorem delete_by_object_finds_its_row:
  "\<exists>s u v.
      run ct clock (creating @ reading @ updating) init = Inr s
    \<and> filter (name_eq ''Albert Einstein'') (working s) = [stored 1 ct 8 albert_einstein0]
    \<and> exec ct now FirstAlbert s = Inr u
    \<and> albert_einstein u = Persistent (load (stored 1 ct 8 albert_einstein0))
    \<and> exec ct now' DeleteObject u = Inr v
    \<and> deleted v = [load (stored 1 ct 8 albert_einstein0)]"
proof -
  have f0: "run ct clock (creating @ reading @ updating) init = Inr (after_updating ct)"
    by (simp only: run_append run_creating run_reading run_updating sum.case)
  have f1: "filter (name_eq ''Albert Einstein'') (working (after_updating ct))
      = [stored 1 ct 8 albert_einstein0]"
    by (simp add: state_defs name_eq_def values_of_def albert_einstein0_def alan_turing0_def)
  note f2 = run_first_albert [of ct now]
  have f3: "albert_einstein ((after_updating ct)\<lparr>albert_einstein :=
              Persistent (load (stored 1 ct 8 albert_einstein0))\<rparr>)
      = Persistent (load (stored 1 ct 8 albert_einstein0))"
    by simp
  have f4: "exec ct now' DeleteObject ((after_updating ct)\<lparr>albert_einstein :=
              Persistent (load (stored 1 ct 8 albert_einstein0))\<rparr>)
      = Inr ((after_updating ct)\<lparr>albert_einstein :=
              Persistent (load (stored 1 ct 8 albert_einstein0)),
              deleted := [load (stored 1 ct 8 albert_einstein0)]\<rparr>)"
    by (simp add: session_delete_def state_defs init_def)
  have f5: "deleted ((after_updating ct)\<lparr>albert_einstein :=
              Persistent (load (stored 1 ct 8 albert_einstein0)),
              deleted := [load (stored 1 ct 8 albert_einstein0)]\<rparr>)
      = [load (stored 1 ct 8 albert_einstein0)]"
    by simp
  show ?thesis
    by (intro exI conjI) (rule f0 f1 f2 f3 f4 f5)+
qed


theorem delete_by_object_finds_its_row_witness:
  "\<exists>s u v.
      run (date 2024 1 1) (const_clock (date 2024 1 2)) (creating @ reading @ updating) init
        = Inr s
    \<and> filter (name_eq ''Albert Einstein'') (working s)
        = [stored 1 (date 2024 1 1) 8 albert_einstein0]
    \<and> exec (date 2024 1 1) (date 2024 1 2) FirstAlbert s = Inr u
    \<and> albert_einstein u = Persistent (load (stored 1 (date 2024 1 1) 8 albert_einstein0))
    \<and> exec (date 2024 1 1) (date 2024 1 2) DeleteObject u = Inr v
    \<and> deleted v = [load (stored 1 (date 2024 1 1) 8 albert_einstein0)]"
  using delete_by_object_finds_its_row
    [of "date 2024 1 1" "const_clock (date 2024 1 2)" "date 2024 1 2" "date 2024 1 2"] .

lemma flush_clean: "dirty s = [] \<Longrightarrow> deleted s = [] \<Longrightarrow> flush s = Inr s"
  by (cases s) (simp add: flush_def)

lemma filter_none: "filter p t = [] \<Longrightarrow> filter (\<lambda>r. \<not> p r) t = t"
  by (induction t) (auto split: if_splits)

lemma delete_expr_no_match:
  assumes "dirty s = []" "deleted s = []" "filter (name_eq ''Albert Einstein'') (working s) = []"
  shows "exec ct now DeleteExpr s = Inr s"
  using assms
  by (cases s) (simp add: query_def flush_def delete_expr_def filter_none)

lemma run_deleted:
  "run ct clock (take 5 deleting) (after_updating ct)
     = Inr ((after_updating ct)\<lparr>committed := [stored 2 ct 13 alan_turing0],
             working := [stored 2 ct 13 alan_turing0], albert_einstein := PyNone,
             stdout := stdout (after_updating ct) @ [PNone]\<rparr>)"
  by (simp add: deleting_def state_defs model_defs)

text \<open>
  Claim C5. After the delete by object of lines 143 to 148 the query of line 150 finds no
  row and line 151 prints \<^verbatim>\<open>None\<close>. The delete expression of line 157 then matches no
  row: it raises nothing and leaves the state as it was, and the query of line 158 again
  finds no row. In general the delete expression on a session with nothing to flush and no
  matching row changes nothing.
\<close>

theorem delete_twice:
  "(\<exists>a b.
      run ct clock (creating @ reading @ updating @ take 5 deleting) init = Inr a
    \<and> albert_einstein a = PyNone \<and> last (stdout a) = PNone
    \<and> filter (name_eq ''Albert Einstein'') (working a) = []
    \<and> exec ct now DeleteExpr a = Inr a
    \<and> run ct clock' [FirstAlbert, PrintAlbert] a = Inr b
    \<and> albert_einstein b = PyNone \<and> last (stdout b) = PNone \<and> working b = working a)
   \<and> (dirty s = [] \<and> deleted s = [] \<and> filter (name_eq ''Albert Einstein'') (working s) = []
        \<longrightarrow> exec ct now DeleteExpr s = Inr s)"
proof (intro conjI impI)
  let ?a = "(after_updating ct)\<lparr>committed := [stored 2 ct 13 alan_turing0],
             working := [stored 2 ct 13 alan_turing0], albert_einstein := PyNone,
             stdout := stdout (after_updating ct) @ [PNone]\<rparr>"
  let ?b = "?a\<lparr>stdout := stdout ?a @ [PNone]\<rparr>"
  have f0: "run ct clock (creating @ reading @ updating @ take 5 deleting) init = Inr ?a"
    by (simp only: run_append run_creating run_reading run_updating run_deleted sum.case)
  have f1: "albert_einstein ?a = PyNone" by simp
  have f2: "last (stdout ?a) = PNone" by simp
  have f3: "filter (name_eq ''Albert Einstein'') (working ?a) = []"
    by (simp add: state_defs name_eq_def values_of_def alan_turing0_def)
  have f4: "exec ct now DeleteExpr ?a = Inr ?a"
    by (rule delete_expr_no_match)
       (simp_all add: state_defs init_def name_eq_def values_of_def alan_turing0_def)
  have f5: "run ct clock' [FirstAlbert, PrintAlbert] ?a = Inr ?b"
    by (simp add: state_defs model_defs)
  have f6: "albert_einstein ?b = PyNone" by simp
  have f7: "last (stdout ?b) = PNone" by simp
  have f8: "working ?b = working ?a" by simp
  show "\<exists>a b.
      run ct clock (creating @ reading @ updating @ take 5 deleting) init = Inr a
    \<and> albert_einstein a = PyNone \<and> last (stdout a) = PNone
    \<and> filter (name_eq ''Albert Einstein'') (working a) = []
    \<and> exec ct now DeleteExpr a = Inr a
    \<and> run ct clock' [FirstAlbert, PrintAlbert] a = Inr b
    \<and> albert_einstein b = PyNone \<and> last (stdout b) = PNone \<and> working b = working a"
    by (intro exI conjI) (rule f0 f1 f2 f3 f4 f5 f6 f7 f8)+
next
  assume "dirty s = [] \<and> deleted s = [] \<and> filter (name_eq ''Albert Einstein'') (working s) = []"
  then show "exec ct now DeleteExpr s = Inr s"
    by (intro delete_expr_no_match) simp_all
qed

theorem delete_twice_witness:
  "dirty (session_on [stored 2 (date 2024 1 1) 13 alan_turing0]) = []
   \<and> deleted (session_on [stored 2 (date 2024 1 1) 13 alan_turing0]) = []
   \<and> filter (name_eq ''Albert Einstein'')
        (working (session_on [stored 2 (date 2024 1 1) 13 alan_turing0])) = []
   \<and> exec (date 2024 1 1) (date 2024 1 2) DeleteExpr
        (session_on [stored 2 (date 2024 1 1) 13 alan_turing0])
       = Inr (session_on [stored 2 (date 2024 1 1) 13 alan_turing0])"
proof -
  have h: "dirty (session_on [stored 2 (date 2024 1 1) 13 alan_turing0]) = []
   \<and> deleted (session_on [stored 2 (date 2024 1 1) 13 alan_turing0]) = []
   \<and> filter (name_eq ''Albert Einstein'')
        (working (session_on [stored 2 (date 2024 1 1) 13 alan_turing0])) = []"
    by (simp add: session_on_def init_def stored_def name_eq_def values_of_def alan_turing0_def)
  with delete_twice [of "date 2024 1 1" _ "date 2024 1 2" _
      "session_on [stored 2 (date 2024 1 1) 13 alan_turing0]"]
  show ?thesis by blast
qed

lemma limit_first: "limit 1 xs = (case first xs of None \<Rightarrow> [] | Some r \<Rightarrow> [r])"
  by (cases xs) (simp_all add: limit_def first_def)

text \<open>
  Claim C7. For any table, \<^verbatim>\<open>.limit(1).all()\<close> on the rows ordered by descending grade
  is the list of the one row that \<^verbatim>\<open>.first()\<close> returns on the same ordering (and empty
  when that is \<^verbatim>\<open>None\<close>). In the script lines 101 and 105 print that row, once inside a
  list and once alone, and it is Alan Turing's name and birthday.
\<close>

theorem limit_one_is_first:
  "limit 1 (order_by by_grade_desc t)
     = (case first (order_by by_grade_desc t) of None \<Rightarrow> [] | Some r \<Rightarrow> [r])
   \<and> (\<exists>s. run ct clock (creating @ reading) init = Inr s
        \<and> take 2 (drop 7 (stdout s))
            = [PList [PTuple [PStr ''Alan Turing'', PDatetime (date 1912 6 23)]],
               PTuple [PStr ''Alan Turing'', PDatetime (date 1912 6 23)]]
        \<and> PTuple [py_str (name alan_turing0), py_datetime (birthday alan_turing0)]
            = PTuple [PStr ''Alan Turing'', PDatetime (date 1912 6 23)])"
proof (intro conjI)
  show "limit 1 (order_by by_grade_desc t)
     = (case first (order_by by_grade_desc t) of None \<Rightarrow> [] | Some r \<Rightarrow> [r])"
    by (rule limit_first)
next
  have f0: "run ct clock (creating @ reading) init = Inr (after_reading ct)"
    by (simp only: run_append run_creating run_reading sum.case)
  have f1: "take 2 (drop 7 (stdout (after_reading ct)))
            = [PList [PTuple [PStr ''Alan Turing'', PDatetime (date 1912 6 23)]],
               PTuple [PStr ''Alan Turing'', PDatetime (date 1912 6 23)]]"
    by (simp add: after_reading_def after_creating_def turing_birthday_def)
  have f2: "PTuple [py_str (name alan_turing0), py_datetime (birthday alan_turing0)]
            = PTuple [PStr ''Alan Turing'', PDatetime (date 1912 6 23)]"
    by (simp add: alan_turing0_def py_str_def py_datetime_def)
  show "\<exists>s. run ct clock (creating @ reading) init = Inr s
        \<and> take 2 (drop 7 (stdout s))
            = [PList [PTuple [PStr ''Alan Turing'', PDatetime (date 1912 6 23)]],
               PTuple [PStr ''Alan Turing'', PDatetime (date 1912 6 23)]]
        \<and> PTuple [py_str (name alan_turing0), py_datetime (birthday alan_turing0)]
            = PTuple [PStr ''Alan Turing'', PDatetime (date 1912 6 23)]"
    by (intro exI conjI) (rule f0 f1 f2)+
qed


theorem limit_one_is_first_witness:
  "limit 1 (order_by by_grade_desc (students (date 2024 1 1) 0))
     = (case first (order_by by_grade_desc (students (date 2024 1 1) 0)) of
          None \<Rightarrow> [] | Some r \<Rightarrow> [r])
   \<and> first (order_by by_grade_desc (students (date 2024 1 1) 0))
       = Some (stored 2 (date 2024 1 1) 11 alan_turing0)"
  using limit_one_is_first [of "students (date 2024 1 1) 0"]
  by (simp add: first_def limit_def order_by_def by_grade_desc_def students_def stored_def
      values_of_def albert_einstein0_def alan_turing0_def)

lemmas script_defs = script_def creating_def reading_def updating_def deleting_def

lemma pendings_script:
  "pendings ct clock script init =
     [False, True, False, False,
      False, False, False, False, False, False, False, False, False,
      False, True, False, False, True,
      True, True, True, False, False,
      False, False, False]"
  by (simp add: script_defs pending_def model_defs)

text \<open>
  Claim C3, as the code has it. Each statement of the script is listed with whether it
  begins while a change is pending. The bulk insert (line 63), the loop over the loaded
  instances (lines 128 and 129) and the delete by object (line 147) are each followed at
  once by a commit. The UPDATE of line 136 is not: the print of line 137, the query of line
  145 and the delete of line 147 begin with its change pending, and the commit of line 148
  commits it together with the delete. The DELETE of line 157 is followed by a query and a
  print and by no commit; it deletes no row there, so the script ends with nothing pending.
  The claim as stated, a commit right after every mutating statement, fails at line 136 and
  at line 157.
\<close>

theorem commits_in_the_script:
  "zip script (pendings ct clock script init) =
     [(BulkSaveObjects, False), (Commit, True), (PrintIdAlbert, False), (PrintIdAlan, False),
      (PrintStudents, False), (PrintStudents, False), (PrintNames, False),
      (PrintNamesByName, False), (PrintByGradeDesc, False), (PrintOldestLimit, False),
      (PrintOldestFirst, False), (PrintCount, False), (PrintAlanGrade11, False),
      (IncrementGrades, False), (Commit, True), (PrintNameGrade, False),
      (UpdateExpr, False), (PrintNameGrade, True),
      (FirstAlbert, True), (DeleteObject, True), (Commit, True),
      (FirstAlbert, False), (PrintAlbert, False),
      (DeleteExpr, False), (FirstAlbert, False), (PrintAlbert, False)]
   \<and> (\<exists>s. run ct clock script init = Inr s \<and> \<not> pending s)"
proof -
  have "\<not> pending (after_deleting ct)"
    by (simp add: pending_def state_defs init_def)
  then have "\<exists>s. run ct clock script init = Inr s \<and> \<not> pending s"
    by (simp add: run_script)
  then show ?thesis
    unfolding pendings_script by (simp add: script_defs)
qed

theorem commits_in_the_script_witness:
  "zip script (pendings (date 2024 1 1) (const_clock (date 2024 1 2)) script init) =
     [(BulkSaveObjects, False), (Commit, True), (PrintIdAlbert, False), (PrintIdAlan, False),
      (PrintStudents, False), (PrintStudents, False), (PrintNames, False),
      (PrintNamesByName, False), (PrintByGradeDesc, False), (PrintOldestLimit, False),
      (PrintOldestFirst, False), (PrintCount, False), (PrintAlanGrade11, False),
      (IncrementGrades, False), (Commit, True), (PrintNameGrade, False),
      (UpdateExpr, False), (PrintNameGrade, True),
      (FirstAlbert, True), (DeleteObject, True), (Commit, True),
      (FirstAlbert, False), (PrintAlbert, False),
      (DeleteExpr, False), (FirstAlbert, False), (PrintAlbert, False)]
   \<and> (\<exists>s. run (date 2024 1 1) (const_clock (date 2024 1 2)) script init = Inr s
          \<and> \<not> pending s)"
  using commits_in_the_script [of "date 2024 1 1" "const_clock (date 2024 1 2)"] .

theorem commits_in_the_script_counterexample:
  "script ! 16 = UpdateExpr \<and> script ! 17 = PrintNameGrade
   \<and> pendings (date 2024 1 1) (const_clock (date 2024 1 2)) script init ! 17 = True
   \<and> script ! 23 = DeleteExpr \<and> drop 24 script = [FirstAlbert, PrintAlbert]"
  unfolding pendings_script by (simp add: script_defs)

text \<open>
  What the pattern of line 120 means for any name: some part of the name reads \<^verbatim>\<open>alan\<close>
  once its ASCII capitals are lowered.
\<close>

lemma like_percent: "like (CHR ''%'' # ps) s = (\<exists>u v. s = u @ v \<and> like ps v)"
proof (induction s)
  case Nil
  then show ?case by simp
next
  case (Cons c cs)
  have "(\<exists>u v. c # cs = u @ v \<and> like ps v) = (like ps (c # cs) \<or> (\<exists>u v. cs = u @ v \<and> like ps v))"
    by (auto simp: Cons_eq_append_conv)
  with Cons show ?case by simp
qed

lemma like_any: "like ''%'' s"
proof -
  have "s = s @ [] \<and> like [] []" by simp
  then have "\<exists>u v. s = u @ v \<and> like [] v" by blast
  then show ?thesis by (simp only: like_percent)
qed

lemma lower_Alan:
  "ascii_lower CHR ''A'' = CHR ''a''" "ascii_lower CHR ''l'' = CHR ''l''"
  "ascii_lower CHR ''a'' = CHR ''a''" "ascii_lower CHR ''n'' = CHR ''n''"
  by (simp_all add: ascii_lower_def)

lemma like_Alan_prefix:
  "like ''Alan%'' v = (\<exists>w x. v = w @ x \<and> map ascii_lower w = ''alan'')"
proof
  assume "like ''Alan%'' v"
  then obtain c1 v1 where 1: "v = c1 # v1" "ascii_lower c1 = CHR ''a''" "like ''lan%'' v1"
    by (cases v) (auto simp: lower_Alan)
  from 1(3) obtain c2 v2 where 2: "v1 = c2 # v2" "ascii_lower c2 = CHR ''l''" "like ''an%'' v2"
    by (cases v1) (auto simp: lower_Alan)
  from 2(3) obtain c3 v3 where 3: "v2 = c3 # v3" "ascii_lower c3 = CHR ''a''" "like ''n%'' v3"
    by (cases v2) (auto simp: lower_Alan)
  from 3(3) obtain c4 v4 where 4: "v3 = c4 # v4" "ascii_lower c4 = CHR ''n''"
    by (cases v3) (auto simp: lower_Alan)
  have "v = [c1, c2, c3, c4] @ v4 \<and> map ascii_lower [c1, c2, c3, c4] = ''alan''"
    by (simp add: 1 2 3 4)
  then show "\<exists>w x. v = w @ x \<and> map ascii_lower w = ''alan''"
    by (intro exI)
next
  assume "\<exists>w x. v = w @ x \<and> map ascii_lower w = ''alan''"
  then obtain w x where v: "v = w @ x" and w: "map ascii_lower w = ''alan''"
    by (elim exE conjE)
  from w obtain c1 c2 c3 c4 where "w = [c1, c2, c3, c4]"
    "ascii_lower c1 = CHR ''a''" "ascii_lower c2 = CHR ''l''"
    "ascii_lower c3 = CHR ''a''" "ascii_lower c4 = CHR ''n''"
    by (auto simp: map_eq_Cons_conv)
  with v show "like ''Alan%'' v"
    by (simp add: lower_Alan like_any)
qed

lemma split_in_three:
  "(\<exists>u v. n = u @ v \<and> (\<exists>w x. v = w @ x \<and> P w)) = (\<exists>u w v. n = u @ w @ v \<and> P w)"
  by blast

lemma like_Alan:
  "like ''%Alan%'' n = (\<exists>u w v. n = u @ w @ v \<and> map ascii_lower w = ''alan'')"
proof -
  have "like ''%Alan%'' n = (\<exists>u v. n = u @ v \<and> like ''Alan%'' v)"
    by (rule like_percent)
  also have "\<dots> = (\<exists>u v. n = u @ v \<and> (\<exists>w x. v = w @ x \<and> map ascii_lower w = ''alan''))"
    by (simp only: like_Alan_prefix)
  also have "\<dots> = (\<exists>u w v. n = u @ w @ v \<and> map ascii_lower w = ''alan'')"
    by (rule split_in_three)
  finally show ?thesis .
qed


lemma run_reading_to_filter:
  "run ct clock (take 8 reading) (after_creating ct)
     = Inr ((after_reading ct)\<lparr>stdout := butlast (stdout (after_reading ct))\<rparr>)"
  by (simp add: reading_def state_defs model_defs)

lemma exec_filter:
  "exec ct now PrintAlanGrade11 ((after_reading ct)\<lparr>stdout := butlast (stdout (after_reading ct))\<rparr>)
     = Inr (after_reading ct)"
  by (simp add: state_defs model_defs)

lemma Alan_in_Alan_Turing: "\<exists>p q. ''Alan Turing'' = p @ ''Alan'' @ q"
proof -
  have "''Alan Turing'' = [] @ ''Alan'' @ '' Turing''" by simp
  then show ?thesis by (intro exI)
qed

text \<open>
  Claim C8. With both students inserted and the grades unmodified, the filter of lines 119
  and 120, \<^verbatim>\<open>name LIKE '%Alan%'\<close> together with grade = 11, returns exactly one row, that of
  Alan Turing, and the loop of lines 121 and 122 prints exactly \<^verbatim>\<open>Alan Turing\<close>. On this
  table the rows whose name contains \<^verbatim>\<open>Alan\<close> letter for letter and whose grade is 11 are
  the same one row.
\<close>

theorem like_Alan_and_grade_11:
  "\<exists>s u. run ct clock (creating @ take 8 reading) init = Inr s
     \<and> map (\<lambda>r. (name (snd r), grade (snd r))) (working s)
         = [(Some ''Albert Einstein'', Some 6), (Some ''Alan Turing'', Some 11)]
     \<and> filter (\<lambda>r. name_like ''%Alan%'' r \<and> grade_eq 11 r) (working s)
         = [stored 2 ct 11 alan_turing0]
     \<and> filter (\<lambda>r. (\<exists>p q. name (snd r) = Some (p @ ''Alan'' @ q)) \<and> grade_eq 11 r) (working s)
         = [stored 2 ct 11 alan_turing0]
     \<and> name (snd (stored 2 ct 11 alan_turing0)) = Some ''Alan Turing''
     \<and> exec ct now PrintAlanGrade11 s = Inr u
     \<and> stdout u = stdout s @ [PStr ''Alan Turing'']"
proof -
  let ?s = "(after_reading ct)\<lparr>stdout := butlast (stdout (after_reading ct))\<rparr>"
  have f0: "run ct clock (creating @ take 8 reading) init = Inr ?s"
    by (simp only: run_append run_creating run_reading_to_filter sum.case)
  have f1: "map (\<lambda>r. (name (snd r), grade (snd r))) (working ?s)
         = [(Some ''Albert Einstein'', Some 6), (Some ''Alan Turing'', Some 11)]"
    by (simp add: state_defs values_of_def albert_einstein0_def alan_turing0_def)
  have f2: "filter (\<lambda>r. name_like ''%Alan%'' r \<and> grade_eq 11 r) (working ?s)
            = [stored 2 ct 11 alan_turing0]"
    by (simp add: state_defs model_defs)
  have f3: "filter (\<lambda>r. (\<exists>p q. name (snd r) = Some (p @ ''Alan'' @ q)) \<and> grade_eq 11 r)
              (working ?s) = [stored 2 ct 11 alan_turing0]"
    using Alan_in_Alan_Turing
    by (simp add: state_defs grade_eq_def values_of_def albert_einstein0_def alan_turing0_def)
  have f4: "name (snd (stored 2 ct 11 alan_turing0)) = Some ''Alan Turing''"
    by (simp add: stored_def values_of_def alan_turing0_def)
  have f5: "exec ct now PrintAlanGrade11 ?s = Inr (after_reading ct)"
    by (rule exec_filter)
  have f6: "stdout (after_reading ct) = stdout ?s @ [PStr ''Alan Turing'']"
    by (simp add: state_defs)
  show ?thesis
    by (intro exI conjI) (rule f0 f1 f2 f3 f4 f5 f6)+
qed

theorem like_Alan_and_grade_11_witness:
  "\<exists>s u. run (date 2024 1 1) (const_clock (date 2024 1 2)) (creating @ take 8 reading) init
         = Inr s
     \<and> map (\<lambda>r. (name (snd r), grade (snd r))) (working s)
         = [(Some ''Albert Einstein'', Some 6), (Some ''Alan Turing'', Some 11)]
     \<and> filter (\<lambda>r. name_like ''%Alan%'' r \<and> grade_eq 11 r) (working s)
         = [stored 2 (date 2024 1 1) 11 alan_turing0]
     \<and> filter (\<lambda>r. (\<exists>p q. name (snd r) = Some (p @ ''Alan'' @ q)) \<and> grade_eq 11 r) (working s)
         = [stored 2 (date 2024 1 1) 11 alan_turing0]
     \<and> name (snd (stored 2 (date 2024 1 1) 11 alan_turing0)) = Some ''Alan Turing''
     \<and> exec (date 2024 1 1) (date 2024 1 2) PrintAlanGrade11 s = Inr u
     \<and> stdout u = stdout s @ [PStr ''Alan Turing'']"
  using like_Alan_and_grade_11 [of "date 2024 1 1" "const_clock (date 2024 1 2)" "date 2024 1 2"] .

lemma increment_grades_all:
  "\<forall>r\<in>set t. grade (snd r) \<noteq> None \<Longrightarrow>
   increment_grades (map load t)
     = Inr (map (\<lambda>r. (load r)\<lparr>grade := sql_plus1 (grade (snd r))\<rparr>) t)"
  by (induction t) (auto simp: load_def sql_plus1_def)

lemma update_row_elsewhere:
  "i \<notin> set (map fst t) \<Longrightarrow> map (\<lambda>r. if fst r = i then f r else r) t = t"
  by (induction t) auto

lemma fst_update_expr: "map fst (update_expr t) = map fst t"
  by (simp add: update_expr_def comp_def)

lemma update_row_own:
  assumes "fst r \<notin> set (map fst pre)" "fst r \<notin> set (map fst t)"
    and "bindable (sql_plus1 (grade (snd r)))"
  shows "update_row ((load r)\<lparr>grade := sql_plus1 (grade (snd r))\<rparr>) (pre @ r # t)
           = Inr (pre @ (fst r, (snd r)\<lparr>grade := sql_plus1 (grade (snd r))\<rparr>) # t)"
  using assms(3)
  by (simp add: update_row_def load_def update_row_elsewhere [OF assms(1)]
      update_row_elsewhere [OF assms(2)])

lemma update_rows_own:
  assumes "distinct (map fst (pre @ t))"
    and "\<forall>r\<in>set t. bindable (sql_plus1 (grade (snd r)))"
  shows "update_rows (map (\<lambda>r. (load r)\<lparr>grade := sql_plus1 (grade (snd r))\<rparr>) t)
           (update_expr pre @ t) = Inr (update_expr (pre @ t))"
  using assms
proof (induction t arbitrary: pre)
  case Nil
  then show ?case by simp
next
  case (Cons r t)
  have pre: "fst r \<notin> set (map fst (update_expr pre))"
    using Cons.prems(1) by (simp add: fst_update_expr)
  have post: "fst r \<notin> set (map fst t)"
    using Cons.prems(1) by simp
  have b: "bindable (sql_plus1 (grade (snd r)))"
    using Cons.prems(2) by simp
  have 1: "update_row ((load r)\<lparr>grade := sql_plus1 (grade (snd r))\<rparr>) (update_expr pre @ r # t)
      = Inr (update_expr pre @ (fst r, (snd r)\<lparr>grade := sql_plus1 (grade (snd r))\<rparr>) # t)"
    using pre post b by (rule update_row_own)
  have 2: "update_expr pre @ (fst r, (snd r)\<lparr>grade := sql_plus1 (grade (snd r))\<rparr>) # t
      = update_expr (pre @ [r]) @ t"
    by (simp add: update_expr_def)
  have d: "distinct (map fst ((pre @ [r]) @ t))"
    using Cons.prems(1) by simp
  have a: "\<forall>r\<in>set t. bindable (sql_plus1 (grade (snd r)))"
    using Cons.prems(2) by simp
  have 3: "update_rows (map (\<lambda>r. (load r)\<lparr>grade := sql_plus1 (grade (snd r))\<rparr>) t)
           (update_expr (pre @ [r]) @ t) = Inr (update_expr ((pre @ [r]) @ t))"
    using d a by (rule Cons.IH)
  show ?case
    by (simp add: 1 2 3 del: append_assoc) (simp add: update_expr_def)
qed

lemma table_ok_distinct: "table_ok t \<Longrightarrow> distinct (map fst t)"
  by (simp add: table_ok_def strict_sorted_iff)

lemma flush_increments:
  assumes "table_ok t" "\<forall>r\<in>set t. bindable (sql_plus1 (grade (snd r)))"
  shows "update_rows (map (\<lambda>r. (load r)\<lparr>grade := sql_plus1 (grade (snd r))\<rparr>) t) t
           = Inr (update_expr t)"
  using update_rows_own [of "[]" t] assms
  by (simp add: table_ok_distinct update_expr_def)


lemma delete_first_match:
  assumes "table_ok t" "filter p t = [r]"
  shows "delete_row (load r) t = delete_expr p t"
proof -
  have "r \<in> set (filter p t)"
    by (simp add: assms(2))
  then have r: "r \<in> set t" "p r"
    by simp_all
  have only: "x = r" if "x \<in> set t" "p x" for x
  proof -
    from that have "x \<in> set (filter p t)" by simp
    then show ?thesis by (simp add: assms(2))
  qed
  have inj: "x = r" if "x \<in> set t" "fst x = fst r" for x
    using table_ok_distinct [OF assms(1)] that r(1)
    by (meson distinct_map inj_onD)
  have "(fst x \<noteq> fst r) = (\<not> p x)" if "x \<in> set t" for x
    using that only inj r(2) by blast
  then show ?thesis
    by (auto simp: delete_row_def delete_expr_def load_def intro: filter_cong)
qed

lemma increment_then_commit:
  assumes "dirty s = []" "deleted s = []" "table_ok (working s)"
    and "\<forall>r\<in>set (working s). \<exists>g. grade (snd r) = Some g \<and> int64 (g + 1)"
  shows "run ct clock [IncrementGrades, Commit] s
           = Inr (s\<lparr>committed := update_expr (working s), working := update_expr (working s)\<rparr>)"
proof -
  let ?xs = "map (\<lambda>r. (load r)\<lparr>grade := sql_plus1 (grade (snd r))\<rparr>) (working s)"
  have g: "\<forall>r\<in>set (working s). grade (snd r) \<noteq> None"
    using assms(4) by auto
  have b: "\<forall>r\<in>set (working s). bindable (sql_plus1 (grade (snd r)))"
    using assms(4) by (auto simp: bindable_def sql_plus1_def)
  have 1: "exec ct now IncrementGrades s = Inr (s\<lparr>dirty := ?xs\<rparr>)" for now
    by (simp add: query_def flush_clean assms(1,2) increment_grades_all [OF g])
  have "flush (s\<lparr>dirty := ?xs\<rparr>)
      = Inr (s\<lparr>dirty := ?xs, working := update_expr (working s), dirty := [], deleted := []\<rparr>)"
    by (simp add: flush_def assms(2) flush_increments [OF assms(3) b])
  moreover have "s\<lparr>dirty := ?xs, working := update_expr (working s), dirty := [], deleted := []\<rparr>
      = s\<lparr>working := update_expr (working s)\<rparr>"
    by (rule state.equality) (simp_all add: assms(1,2))
  ultimately have 2: "flush (s\<lparr>dirty := ?xs\<rparr>) = Inr (s\<lparr>working := update_expr (working s)\<rparr>)"
    by simp
  show ?thesis
    by (simp add: 1 2 commit_def del: exec.simps add: exec.simps(2))
qed

lemma delete_then_commit:
  assumes "dirty s = []" "deleted s = []" "table_ok (working s)"
    and "filter (name_eq ''Albert Einstein'') (working s) = [r]"
  shows "run ct clock [FirstAlbert, DeleteObject, Commit] s
           = Inr (s\<lparr>committed := delete_expr (name_eq ''Albert Einstein'') (working s),
                    working := delete_expr (name_eq ''Albert Einstein'') (working s),
                    albert_einstein := Persistent (load r)\<rparr>)"
proof -
  have 1: "exec ct now FirstAlbert s = Inr (s\<lparr>albert_einstein := Persistent (load r)\<rparr>)"
    for now
    by (simp add: query_def flush_clean assms(1,2,4) first_def limit_def)
  have 2: "exec ct now DeleteObject (s\<lparr>albert_einstein := Persistent (load r)\<rparr>)
      = Inr (s\<lparr>albert_einstein := Persistent (load r), deleted := [load r]\<rparr>)" for now
    by (simp add: session_delete_def assms(2))
  have "flush (s\<lparr>albert_einstein := Persistent (load r), deleted := [load r]\<rparr>)
      = Inr (s\<lparr>albert_einstein := Persistent (load r), deleted := [load r],
               working := delete_expr (name_eq ''Albert Einstein'') (working s),
               dirty := [], deleted := []\<rparr>)"
    by (simp add: flush_def assms(1) delete_first_match [OF assms(3,4)])
  moreover have "s\<lparr>albert_einstein := Persistent (load r), deleted := [load r],
               working := delete_expr (name_eq ''Albert Einstein'') (working s),
               dirty := [], deleted := []\<rparr>
      = s\<lparr>albert_einstein := Persistent (load r),
               working := delete_expr (name_eq ''Albert Einstein'') (working s)\<rparr>"
    by (rule state.equality) (simp_all add: assms(1,2))
  ultimately have 3: "flush (s\<lparr>albert_einstein := Persistent (load r), deleted := [load r]\<rparr>)
      = Inr (s\<lparr>albert_einstein := Persistent (load r),
               working := delete_expr (name_eq ''Albert Einstein'') (working s)\<rparr>)"
    by simp
  show ?thesis
    by (simp add: 1 2 3 commit_def del: exec.simps add: exec.simps(2))
qed

lemma expr_alone:
  assumes "dirty s = []" "deleted s = []"
  shows "run ct clock [UpdateExpr] s = Inr (s\<lparr>working := update_expr (working s)\<rparr>)"
    and "run ct clock [DeleteExpr] s
           = Inr (s\<lparr>working := delete_expr (name_eq ''Albert Einstein'') (working s)\<rparr>)"
  by (simp_all add: query_def flush_clean assms)


text \<open>
  Claim C2, as the code has it. Take a session with nothing waiting to be flushed, on a table
  in key order. If every grade is an integer (not NULL) whose successor still fits 64 bits,
  the loop of lines 128 and 129 with the commit of line 131 and the UPDATE of line 136 leave
  the same rows: each grade one higher. If exactly one row is named Albert Einstein,
  deleting the loaded first match with the commit of line 148 and the DELETE of line 157
  leave the same rows: all but that one. In both cases the path through the instances has
  committed its rows; the expression alone leaves what is committed as it was. The claim as
  stated, for every table state and for at most one matching row, fails: a NULL grade
  raises in the loop where the UPDATE keeps NULL, and with no matching row
  \<^verbatim>\<open>session.delete(None)\<close> raises where the DELETE does nothing.
\<close>

theorem object_path_and_expression_path:
  assumes "dirty s = []" and "deleted s = []" and "table_ok (working s)"
  shows
    "((\<forall>r\<in>set (working s). \<exists>g. grade (snd r) = Some g \<and> int64 (g + 1)) \<longrightarrow>
        (\<exists>s1 s2. run ct clock [IncrementGrades, Commit] s = Inr s1
           \<and> run ct clock [UpdateExpr] s = Inr s2
           \<and> working s1 = working s2 \<and> working s2 = update_expr (working s)
           \<and> committed s1 = working s1 \<and> committed s2 = committed s))
     \<and> ((\<exists>r. filter (name_eq ''Albert Einstein'') (working s) = [r]) \<longrightarrow>
        (\<exists>s1 s2. run ct clock [FirstAlbert, DeleteObject, Commit] s = Inr s1
           \<and> run ct clock [DeleteExpr] s = Inr s2
           \<and> working s1 = working s2
           \<and> working s2 = delete_expr (name_eq ''Albert Einstein'') (working s)
           \<and> committed s1 = working s1 \<and> committed s2 = committed s))"
proof (intro conjI impI)
  assume g: "\<forall>r\<in>set (working s). \<exists>g. grade (snd r) = Some g \<and> int64 (g + 1)"
  show "\<exists>s1 s2. run ct clock [IncrementGrades, Commit] s = Inr s1
           \<and> run ct clock [UpdateExpr] s = Inr s2
           \<and> working s1 = working s2 \<and> working s2 = update_expr (working s)
           \<and> committed s1 = working s1 \<and> committed s2 = committed s"
    unfolding increment_then_commit [OF assms g] expr_alone(1) [OF assms(1,2)]
    by simp
next
  assume "\<exists>r. filter (name_eq ''Albert Einstein'') (working s) = [r]"
  then obtain r where r: "filter (name_eq ''Albert Einstein'') (working s) = [r]"
    by (elim exE)
  show "\<exists>s1 s2. run ct clock [FirstAlbert, DeleteObject, Commit] s = Inr s1
           \<and> run ct clock [DeleteExpr] s = Inr s2
           \<and> working s1 = working s2
           \<and> working s2 = delete_expr (name_eq ''Albert Einstein'') (working s)
           \<and> committed s1 = working s1 \<and> committed s2 = committed s"
    unfolding delete_then_commit [OF assms r] expr_alone(2) [OF assms(1,2)]
    by simp
qed

theorem object_path_and_expression_path_witness:
  "dirty (after_reading (date 2024 1 1)) = [] \<and> deleted (after_reading (date 2024 1 1)) = []
   \<and> table_ok (working (after_reading (date 2024 1 1)))
   \<and> map (\<lambda>r. grade (snd r)) (working (after_reading (date 2024 1 1))) = [Some 6, Some 11]
   \<and> int64 (6 + 1) \<and> int64 (11 + 1)
   \<and> filter (name_eq ''Albert Einstein'') (working (after_reading (date 2024 1 1)))
        = [stored 1 (date 2024 1 1) 6 albert_einstein0]
   \<and> (\<exists>s1 s2. run (date 2024 1 1) (const_clock (date 2024 1 2)) [IncrementGrades, Commit]
                   (after_reading (date 2024 1 1)) = Inr s1
           \<and> run (date 2024 1 1) (const_clock (date 2024 1 2)) [UpdateExpr]
                   (after_reading (date 2024 1 1)) = Inr s2
           \<and> working s1 = working s2
           \<and> working s2 = update_expr (working (after_reading (date 2024 1 1)))
           \<and> committed s1 = working s1
           \<and> committed s2 = committed (after_reading (date 2024 1 1)))
   \<and> (\<exists>s1 s2. run (date 2024 1 1) (const_clock (date 2024 1 2))
                   [FirstAlbert, DeleteObject, Commit] (after_reading (date 2024 1 1)) = Inr s1
           \<and> run (date 2024 1 1) (const_clock (date 2024 1 2)) [DeleteExpr]
                   (after_reading (date 2024 1 1)) = Inr s2
           \<and> working s1 = working s2
           \<and> working s2 = delete_expr (name_eq ''Albert Einstein'')
                              (working (after_reading (date 2024 1 1)))
           \<and> committed s1 = working s1
           \<and> committed s2 = committed (after_reading (date 2024 1 1)))"
proof -
  let ?s = "after_reading (date 2024 1 1)"
  have h1: "dirty ?s = []" and h2: "deleted ?s = []"
    by (simp_all add: state_defs init_def)
  have h3: "table_ok (working ?s)"
    by (simp add: state_defs table_ok_def)
  have h4: "\<forall>r\<in>set (working ?s). \<exists>g. grade (snd r) = Some g \<and> int64 (g + 1)"
    by (simp add: state_defs values_of_def albert_einstein0_def alan_turing0_def int64_def)
  have h5: "filter (name_eq ''Albert Einstein'') (working ?s)
        = [stored 1 (date 2024 1 1) 6 albert_einstein0]"
    by (simp add: state_defs name_eq_def values_of_def albert_einstein0_def alan_turing0_def)
  then have h5': "\<exists>r. filter (name_eq ''Albert Einstein'') (working ?s) = [r]"
    by (rule exI)
  note both = object_path_and_expression_path
    [OF h1 h2 h3, of "date 2024 1 1" "const_clock (date 2024 1 2)"]
  have c1: "\<exists>s1 s2. run (date 2024 1 1) (const_clock (date 2024 1 2))
                   [IncrementGrades, Commit] ?s = Inr s1
           \<and> run (date 2024 1 1) (const_clock (date 2024 1 2)) [UpdateExpr] ?s = Inr s2
           \<and> working s1 = working s2 \<and> working s2 = update_expr (working ?s)
           \<and> committed s1 = working s1 \<and> committed s2 = committed ?s"
    by (rule mp [OF conjunct1 [OF both] h4])
  have c2: "\<exists>s1 s2. run (date 2024 1 1) (const_clock (date 2024 1 2))
                   [FirstAlbert, DeleteObject, Commit] ?s = Inr s1
           \<and> run (date 2024 1 1) (const_clock (date 2024 1 2)) [DeleteExpr] ?s = Inr s2
           \<and> working s1 = working s2
           \<and> working s2 = delete_expr (name_eq ''Albert Einstein'') (working ?s)
           \<and> committed s1 = working s1 \<and> committed s2 = committed ?s"
    by (rule mp [OF conjunct2 [OF both] h5'])
  have h6: "map (\<lambda>r. grade (snd r)) (working ?s) = [Some 6, Some 11]"
    by (simp add: state_defs values_of_def albert_einstein0_def alan_turing0_def)
  have h7: "int64 (6 + 1)" and h8: "int64 (11 + 1)"
    by (simp_all add: int64_def)
  from h1 h2 h3 h6 h7 h8 h5 c1 c2 show ?thesis
    by (intro conjI)
qed

theorem object_path_and_expression_path_counterexample:
  "run (date 2024 1 1) (const_clock (date 2024 1 2)) [IncrementGrades, Commit]
       (session_on [(1, \<lparr>name = Some ''Albert Einstein'', email = None, grade = None,
                           birthday = None, enrolled_date = None\<rparr>)])
     = Inl TypeError
   \<and> run (date 2024 1 1) (const_clock (date 2024 1 2)) [UpdateExpr]
       (session_on [(1, \<lparr>name = Some ''Albert Einstein'', email = None, grade = None,
                           birthday = None, enrolled_date = None\<rparr>)])
     = Inr (session_on [(1, \<lparr>name = Some ''Albert Einstein'', email = None, grade = None,
                           birthday = None, enrolled_date = None\<rparr>)])
   \<and> length (filter (name_eq ''Albert Einstein'') (working (session_on []))) \<le> 1
   \<and> run (date 2024 1 1) (const_clock (date 2024 1 2)) [FirstAlbert, DeleteObject, Commit]
       (session_on []) = Inl UnmappedInstanceError
   \<and> run (date 2024 1 1) (const_clock (date 2024 1 2)) [DeleteExpr] (session_on [])
     = Inr (session_on [])"
  by (simp add: session_on_def model_defs)

end
